theory Spec2Isabelle
  imports Main
begin

section \<open>Values, exceptions and the environment\<close>

text \<open>
  Values decoded from the JSON-RPC wire (\<open>json.loads\<close>): tool arguments, request ids,
  method names. Strings are sequences of code points below 256; floating-point numbers
  are outside the model.
\<close>

datatype json =
    JNull
  | JBool bool
  | JInt int
  | JStr string
  | JList "json list"
  | JDict "(string \<times> json) list"

text \<open>
  Values returned by the generated OpenProject API client: either plain containers or
  attribute objects (anything with a \<open>__dict__\<close>), the two shapes the extraction code
  probes for.
\<close>

datatype pyval =
    PNone
  | PBool bool
  | PInt int
  | PStr string
  | PList "pyval list"
  | PDict "(string \<times> pyval) list"
  | PObj "(string \<times> pyval) list"

text \<open>
  Exceptions carry the text that \<open>str(e)\<close> yields. Class hierarchy of the source:
  \<open>OpenProjectConnectionError\<close>, \<open>OpenProjectAuthenticationError\<close> and
  \<open>OpenProjectRateLimitError\<close> derive from \<open>OpenProjectClientError\<close>;
  \<open>AuthenticationError\<close> derives from \<open>SecurityError\<close>; pydantic's validation error
  and \<open>json.JSONDecodeError\<close> derive from \<open>ValueError\<close>. The second argument of the
  client errors is the optional \<open>OpenProjectError\<close> (status code and message).

  \<open>openproject_client.py\<close> imports \<open>get_config\<close> from the configuration module, which
  does not define it, so its \<open>except ImportError\<close> branch runs and the names
  \<open>SecurityError\<close> and \<open>AuthenticationError\<close> are bound, in that module, to two fresh
  classes deriving from \<open>Exception\<close> only. \<open>FallbackAuthenticationError\<close> stands for
  the second of them; it is no instance of the security module's classes.
\<close>

record OpenProjectError =
  status_code :: int
  error_code :: "string option"
  message :: string

datatype exn =
    RequestError string
  | ApiException int string
  | OpenProjectClientError string "OpenProjectError option"
  | OpenProjectConnectionError string
  | OpenProjectAuthenticationError string "OpenProjectError option"
  | OpenProjectRateLimitError string
  | SecurityError string
  | AuthenticationError string
  | FallbackAuthenticationError string
  | ValidationError string
  | ValueError string
  | PydanticValidationError string
  | KeyError string
  | AttributeError string
  | TypeError string
  | JSONDecodeError string
  | RecursionError string
  | OtherException string

fun exn_str :: "exn \<Rightarrow> string" where
  "exn_str (RequestError m) = m"
| "exn_str (ApiException st m) = m"
| "exn_str (OpenProjectClientError m er) = m"
| "exn_str (OpenProjectConnectionError m) = m"
| "exn_str (OpenProjectAuthenticationError m er) = m"
| "exn_str (OpenProjectRateLimitError m) = m"
| "exn_str (SecurityError m) = m"
| "exn_str (AuthenticationError m) = m"
| "exn_str (FallbackAuthenticationError m) = m"
| "exn_str (ValidationError m) = m"
| "exn_str (ValueError m) = m"
| "exn_str (PydanticValidationError m) = m"
| "exn_str (KeyError m) = m"
| "exn_str (AttributeError m) = m"
| "exn_str (TypeError m) = m"
| "exn_str (JSONDecodeError m) = m"
| "exn_str (RecursionError m) = m"
| "exn_str (OtherException m) = m"

text \<open>One request issued to the backend through the generated API client.\<close>

datatype call =
    ProjectReq json
  | WorkPackagesReq json json

text \<open>
  What the program takes from outside its own source: the JSON decoder (which answers
  with the decoded document or with the exception it raises: \<open>JSONDecodeError\<close> for a
  malformed text, or another one such as \<open>RecursionError\<close> for a text nested too
  deeply), \<open>repr\<close> of containers, pydantic's lax string-to-integer conversion, and the backend. The backend
  answers a request as a function of the requests issued before it, either with a raw
  result or with the exception the API client raises.
\<close>

record env =
  json_loads :: "string \<Rightarrow> exn + json"
  py_repr :: "json \<Rightarrow> string"
  str_as_int :: "string \<Rightarrow> int option"
  api :: "call list \<Rightarrow> call \<Rightarrow> exn + pyval"

text \<open>The client's observable effects: requests issued and back-off delays slept.\<close>

record client_state =
  calls :: "call list"
  sleeps :: "nat list"

subsection \<open>Python built-ins\<close>

fun truthy :: "json \<Rightarrow> bool" where
  "truthy JNull = False"
| "truthy (JBool b) = b"
| "truthy (JInt i) = (i \<noteq> 0)"
| "truthy (JStr s) = (s \<noteq> [])"
| "truthy (JList xs) = (xs \<noteq> [])"
| "truthy (JDict kvs) = (kvs \<noteq> [])"

definition digit_char :: "nat \<Rightarrow> char" where
  "digit_char d = ''0123456789'' ! (d mod 10)"

function str_nat :: "nat \<Rightarrow> string" where
  "str_nat n = (if n < 10 then [digit_char n] else str_nat (n div 10) @ [digit_char (n mod 10)])"
  by pat_completeness auto
termination
  by (relation "measure (\<lambda>n. n)") auto

declare str_nat.simps [simp del]

definition str_int :: "int \<Rightarrow> string" where
  "str_int i = (if i < 0 then CHR ''-'' # str_nat (nat (- i)) else str_nat (nat i))"

fun py_str :: "env \<Rightarrow> json \<Rightarrow> string" where
  "py_str E JNull = ''None''"
| "py_str E (JBool b) = (if b then ''True'' else ''False'')"
| "py_str E (JInt i) = str_int i"
| "py_str E (JStr s) = s"
| "py_str E v = py_repr E v"

text \<open>\<open>d.get(k, default)\<close> on a dictionary.\<close>

definition dict_get :: "(string \<times> 'a) list \<Rightarrow> string \<Rightarrow> 'a \<Rightarrow> 'a" where
  "dict_get d k dflt = (case map_of d k of Some v \<Rightarrow> v | None \<Rightarrow> dflt)"

text \<open>
  \<open>hasattr\<close> and \<open>getattr\<close> with a default: only attribute objects carry the attribute
  names the client asks for; none of the built-in types has them.
\<close>

fun hasattr :: "pyval \<Rightarrow> string \<Rightarrow> bool" where
  "hasattr (PObj attrs) a = (a = ''__dict__'' \<or> map_of attrs a \<noteq> None)"
| "hasattr v a = False"

fun getattr :: "pyval \<Rightarrow> string \<Rightarrow> pyval \<Rightarrow> pyval" where
  "getattr (PObj attrs) a dflt = dict_get attrs a dflt"
| "getattr v a dflt = dflt"

section \<open>The pydantic models\<close>

record ProjectInfo =
  pi_id :: int
  pi_name :: string
  pi_identifier :: string
  pi_description :: "(string \<times> pyval) list option"
  pi_created_at :: "string option"
  pi_updated_at :: "string option"

record WorkPackageInfo =
  wp_id :: "int option"
  wp_subject :: string
  wp_description :: "(string \<times> pyval) list option"
  wp_status :: "string option"
  wp_priority :: "string option"
  wp_assignee :: "string option"
  wp_due_date :: "string option"
  wp_created_at :: "string option"
  wp_updated_at :: "string option"

record WeeklyReportData =
  wr_project :: ProjectInfo
  wr_work_packages :: "WorkPackageInfo list"
  wr_week :: string
  wr_summary :: "string option"

text \<open>
  Field validation in pydantic's default (lax) mode. \<open>None\<close> as a result means the
  value is rejected. An \<open>int\<close> field takes an integer, a boolean, or a string that the
  lax conversion accepts; a \<open>str\<close> field takes a string only; \<open>Optional\<close> adds
  \<open>None\<close>; \<open>Dict[str, Any]\<close> takes a dictionary.
\<close>

fun validate_int :: "env \<Rightarrow> pyval \<Rightarrow> int option" where
  "validate_int E (PInt i) = Some i"
| "validate_int E (PBool b) = Some (if b then 1 else 0)"
| "validate_int E (PStr s) = str_as_int E s"
| "validate_int E v = None"

fun validate_str :: "pyval \<Rightarrow> string option" where
  "validate_str (PStr s) = Some s"
| "validate_str v = None"

fun validate_opt_int :: "env \<Rightarrow> pyval \<Rightarrow> int option option" where
  "validate_opt_int E PNone = Some None"
| "validate_opt_int E v = map_option Some (validate_int E v)"

fun validate_opt_str :: "pyval \<Rightarrow> string option option" where
  "validate_opt_str PNone = Some None"
| "validate_opt_str v = map_option Some (validate_str v)"

fun validate_opt_dict :: "pyval \<Rightarrow> (string \<times> pyval) list option option" where
  "validate_opt_dict PNone = Some None"
| "validate_opt_dict (PDict d) = Some (Some d)"
| "validate_opt_dict v = None"

text \<open>
  The model constructors take the keyword arguments that were supplied (an association
  list); a keyword that is absent leaves the field at its default, or fails validation
  when the field is required (\<open>Field(...)\<close>). Unknown keywords are ignored.
\<close>

definition ProjectInfo_fields :: "env \<Rightarrow> (string \<times> pyval) list \<Rightarrow> ProjectInfo option" where
  "ProjectInfo_fields E kw =
     Option.bind (Option.bind (map_of kw ''id'') (validate_int E)) (\<lambda>i.
     Option.bind (Option.bind (map_of kw ''name'') validate_str) (\<lambda>n.
     Option.bind (Option.bind (map_of kw ''identifier'') validate_str) (\<lambda>idf.
     Option.bind (validate_opt_dict (dict_get kw ''description'' PNone)) (\<lambda>d.
     Option.bind (validate_opt_str (dict_get kw ''created_at'' PNone)) (\<lambda>c.
     Option.bind (validate_opt_str (dict_get kw ''updated_at'' PNone)) (\<lambda>u.
     Some \<lparr>pi_id = i, pi_name = n, pi_identifier = idf, pi_description = d,
           pi_created_at = c, pi_updated_at = u\<rparr>))))))"

definition ProjectInfo_init :: "env \<Rightarrow> (string \<times> pyval) list \<Rightarrow> exn + ProjectInfo" where
  "ProjectInfo_init E kw =
     (case ProjectInfo_fields E kw of
        Some p \<Rightarrow> Inr p
      | None \<Rightarrow> Inl (PydanticValidationError ''validation error for ProjectInfo''))"

definition WorkPackageInfo_fields :: "env \<Rightarrow> (string \<times> pyval) list \<Rightarrow> WorkPackageInfo option" where
  "WorkPackageInfo_fields E kw =
     Option.bind (validate_opt_int E (dict_get kw ''id'' PNone)) (\<lambda>i.
     Option.bind (Option.bind (map_of kw ''subject'') validate_str) (\<lambda>s.
     Option.bind (validate_opt_dict (dict_get kw ''description'' PNone)) (\<lambda>d.
     Option.bind (validate_opt_str (dict_get kw ''status'' PNone)) (\<lambda>st.
     Option.bind (validate_opt_str (dict_get kw ''priority'' PNone)) (\<lambda>pr.
     Option.bind (validate_opt_str (dict_get kw ''assignee'' PNone)) (\<lambda>a.
     Option.bind (validate_opt_str (dict_get kw ''due_date'' PNone)) (\<lambda>du.
     Option.bind (validate_opt_str (dict_get kw ''created_at'' PNone)) (\<lambda>c.
     Option.bind (validate_opt_str (dict_get kw ''updated_at'' PNone)) (\<lambda>u.
     Some \<lparr>wp_id = i, wp_subject = s, wp_description = d, wp_status = st,
           wp_priority = pr, wp_assignee = a, wp_due_date = du,
           wp_created_at = c, wp_updated_at = u\<rparr>)))))))))"

definition WorkPackageInfo_init :: "env \<Rightarrow> (string \<times> pyval) list \<Rightarrow> exn + WorkPackageInfo" where
  "WorkPackageInfo_init E kw =
     (case WorkPackageInfo_fields E kw of
        Some w \<Rightarrow> Inr w
      | None \<Rightarrow> Inl (PydanticValidationError ''validation error for WorkPackageInfo''))"

text \<open>
  \<open>WeeklyReportData(project=..., work_packages=..., week=..., summary=...)\<close>: the first
  two arguments are model instances already; \<open>week\<close> is a required \<open>str\<close> field and
  comes from the caller.
\<close>

definition WeeklyReportData_init ::
  "ProjectInfo \<Rightarrow> WorkPackageInfo list \<Rightarrow> json \<Rightarrow> string \<Rightarrow> exn + WeeklyReportData" where
  "WeeklyReportData_init p wps wk summ =
     (case wk of
        JStr s \<Rightarrow> Inr \<lparr>wr_project = p, wr_work_packages = wps, wr_week = s, wr_summary = Some summ\<rparr>
      | _ \<Rightarrow> Inl (PydanticValidationError ''validation error for WeeklyReportData''))"

text \<open>
  The dataclass \<open>OpenProjectError\<close> declares \<open>status_code\<close>, \<open>error_code\<close> and
  \<open>message\<close> without defaults, so its generated constructor requires all three; an
  argument that is not supplied (\<open>None\<close> here) makes the call raise \<open>TypeError\<close>.
\<close>

definition OpenProjectError_init ::
  "int option \<Rightarrow> string option option \<Rightarrow> string option \<Rightarrow> exn + OpenProjectError" where
  "OpenProjectError_init sc ec msg =
     (case (sc, ec, msg) of
        (Some s, Some c, Some m) \<Rightarrow> Inr \<lparr>status_code = s, error_code = c, message = m\<rparr>
      | _ \<Rightarrow> Inl (TypeError ''OpenProjectError.__init__() missing required positional argument''))"

section \<open>The backend client\<close>

subsection \<open>Extraction of the typed views\<close>

definition extract_project_data :: "env \<Rightarrow> pyval \<Rightarrow> exn + ProjectInfo" where
  "extract_project_data E project_result =
     (if hasattr project_result ''__dict__'' then
        ProjectInfo_init E
          [(''id'', getattr project_result ''id'' (PInt 0)),
           (''name'', getattr project_result ''name'' (PStr ''Unknown Project'')),
           (''identifier'', getattr project_result ''identifier'' (PStr [])),
           (''description'', getattr project_result ''description'' (PDict [])),
           (''created_at'', getattr project_result ''created_at'' (PStr [])),
           (''updated_at'', getattr project_result ''updated_at'' (PStr []))]
      else case project_result of
        PDict d \<Rightarrow> ProjectInfo_init E d
      | _ \<Rightarrow> Inl (AttributeError ''object has no attribute get''))"

text \<open>Iteration over a value: lists, strings (characters) and dictionaries (keys).\<close>

fun py_iter :: "pyval \<Rightarrow> exn + pyval list" where
  "py_iter (PList xs) = Inr xs"
| "py_iter (PStr s) = Inr (map (\<lambda>c. PStr [c]) s)"
| "py_iter (PDict d) = Inr (map (\<lambda>kv. PStr (fst kv)) d)"
| "py_iter v = Inl (TypeError ''object is not iterable'')"

definition work_packages_list :: "pyval \<Rightarrow> exn + pyval" where
  "work_packages_list r =
     (if hasattr r ''_embedded'' \<and> hasattr (getattr r ''_embedded'' PNone) ''elements'' then
        Inr (getattr (getattr r ''_embedded'' PNone) ''elements'' PNone)
      else if hasattr r ''elements'' then Inr (getattr r ''elements'' PNone)
      else case r of
        PDict d \<Rightarrow>
          (case dict_get d ''_embedded'' (PDict []) of
             PDict e \<Rightarrow> Inr (dict_get e ''elements'' (PList []))
           | _ \<Rightarrow> Inl (AttributeError ''object has no attribute get''))
      | PList xs \<Rightarrow> Inr (PList xs)
      | _ \<Rightarrow> Inr (PList []))"

definition work_package_of :: "env \<Rightarrow> pyval \<Rightarrow> (exn + WorkPackageInfo) option" where
  "work_package_of E wp =
     (if hasattr wp ''__dict__'' then
        Some (WorkPackageInfo_init E
          [(''id'', getattr wp ''id'' PNone),
           (''subject'', getattr wp ''subject'' (PStr [])),
           (''description'', getattr wp ''description'' (PDict [])),
           (''status'', getattr (getattr wp ''status'' PNone) ''name'' PNone),
           (''priority'', getattr (getattr wp ''priority'' PNone) ''name'' PNone),
           (''assignee'', getattr (getattr wp ''assignee'' PNone) ''name'' PNone),
           (''due_date'', getattr wp ''due_date'' PNone),
           (''created_at'', getattr wp ''created_at'' PNone),
           (''updated_at'', getattr wp ''updated_at'' PNone)])
      else case wp of
        PDict d \<Rightarrow> Some (WorkPackageInfo_init E d)
      | _ \<Rightarrow> None)"

fun convert_work_packages ::
  "env \<Rightarrow> pyval list \<Rightarrow> WorkPackageInfo list \<Rightarrow> exn + WorkPackageInfo list" where
  "convert_work_packages E [] wp_info = Inr wp_info"
| "convert_work_packages E (wp # rest) wp_info =
     (case work_package_of E wp of
        None \<Rightarrow> convert_work_packages E rest wp_info
      | Some (Inl e) \<Rightarrow> Inl e
      | Some (Inr w) \<Rightarrow> convert_work_packages E rest (wp_info @ [w]))"

definition extract_work_packages_data :: "env \<Rightarrow> pyval \<Rightarrow> exn + WorkPackageInfo list" where
  "extract_work_packages_data E work_packages_result =
     (case work_packages_list work_packages_result of
        Inl e \<Rightarrow> Inl e
      | Inr l \<Rightarrow>
          (case py_iter l of
             Inl e \<Rightarrow> Inl e
           | Inr elems \<Rightarrow> convert_work_packages E elems []))"

subsection \<open>The retry decorator\<close>

text \<open>
  \<open>backoff.on_exception(backoff.expo, (httpx.RequestError, OpenProjectConnectionError,
  ApiException), max_tries=3, base=1, max_value=30)\<close>: the decorated coroutine is called
  again only when the exception that leaves it is an instance of one of the three listed
  classes and the number of tries is not yet \<open>max_tries\<close>; any other exception
  propagates at once. Between tries the wrapper sleeps for the next value of the wait
  generator (before jitter).
\<close>

fun retry_on :: "exn \<Rightarrow> bool" where
  "retry_on (RequestError m) = True"
| "retry_on (OpenProjectConnectionError m) = True"
| "retry_on (ApiException st m) = True"
| "retry_on e = False"

definition expo :: "nat \<Rightarrow> nat \<Rightarrow> nat \<Rightarrow> nat \<Rightarrow> nat" where
  "expo base factor max_value n = min (factor * base ^ n) max_value"

definition max_tries :: nat where
  "max_tries = 3"

fun on_exception ::
  "nat \<Rightarrow> nat \<Rightarrow> (client_state \<Rightarrow> (exn + 'a) \<times> client_state) \<Rightarrow> client_state
     \<Rightarrow> (exn + 'a) \<times> client_state" where
  "on_exception 0 n target s = target s"
| "on_exception (Suc tries_left) n target s =
     (case target s of
        (Inr ret, s') \<Rightarrow> (Inr ret, s')
      | (Inl e, s') \<Rightarrow>
          (if retry_on e
           then on_exception tries_left (Suc n) target (s'\<lparr>sleeps := sleeps s' @ [expo 1 1 30 n]\<rparr>)
           else (Inl e, s')))"

subsection \<open>Client operations\<close>

text \<open>
  The \<open>except ApiException\<close> handler shared by \<open>get_project\<close> and \<open>get_work_packages\<close>.
  Each branch builds an \<open>OpenProjectError\<close> from \<open>status_code\<close> and \<open>message\<close> alone;
  an exception raised while the handler runs replaces the one being handled.
\<close>

definition api_exception_handler :: "env \<Rightarrow> json \<Rightarrow> int \<Rightarrow> string \<Rightarrow> exn" where
  "api_exception_handler E project_id status txt =
     (if status = 401 then
        (case OpenProjectError_init (Some status) None (Some ''Invalid API credentials'') of
           Inl t \<Rightarrow> t
         | Inr er \<Rightarrow> OpenProjectAuthenticationError ''Authentication failed'' (Some er))
      else if status = 404 then
        (case OpenProjectError_init (Some status) None
                (Some (''Project '' @ py_str E project_id @ '' not found'')) of
           Inl t \<Rightarrow> t
         | Inr er \<Rightarrow>
             OpenProjectClientError (''Project '' @ py_str E project_id @ '' not found'') (Some er))
      else
        (case OpenProjectError_init (Some status) None (Some txt) of
           Inl t \<Rightarrow> t
         | Inr er \<Rightarrow> OpenProjectClientError (''API error: '' @ txt) (Some er)))"

text \<open>
  The two \<open>except\<close> clauses around a client operation's body: \<open>ApiException\<close> first, any
  other \<open>Exception\<close> second; \<open>what\<close> is the text after "Failed to".
\<close>

fun client_except :: "env \<Rightarrow> string \<Rightarrow> json \<Rightarrow> exn \<Rightarrow> exn" where
  "client_except E what project_id (ApiException status txt) =
     api_exception_handler E project_id status txt"
| "client_except E what project_id e =
     OpenProjectClientError
       (''Failed to '' @ what @ '' '' @ py_str E project_id @ '': '' @ exn_str e) None"

text \<open>One execution of the body of \<open>get_project\<close> (what the decorator wraps).\<close>

definition get_project_body ::
  "env \<Rightarrow> json \<Rightarrow> client_state \<Rightarrow> (exn + ProjectInfo) \<times> client_state" where
  "get_project_body E project_id s =
     (let req = ProjectReq project_id;
          s' = s\<lparr>calls := calls s @ [req]\<rparr>
      in case api E (calls s) req of
           Inl e \<Rightarrow> (Inl (client_except E ''get project'' project_id e), s')
         | Inr project_result \<Rightarrow>
             (case extract_project_data E project_result of
                Inl e \<Rightarrow> (Inl (client_except E ''get project'' project_id e), s')
              | Inr project_data \<Rightarrow> (Inr project_data, s')))"

definition get_project ::
  "env \<Rightarrow> json \<Rightarrow> client_state \<Rightarrow> (exn + ProjectInfo) \<times> client_state" where
  "get_project E project_id = on_exception (max_tries - 1) 0 (get_project_body E project_id)"

definition default_filters :: json where
  "default_filters =
     JList [JDict [(''status_id'', JDict [(''operator'', JStr ''!''), (''values'', JList [JStr []])])]]"

definition get_work_packages_body ::
  "env \<Rightarrow> json \<Rightarrow> json \<Rightarrow> client_state \<Rightarrow> (exn + WorkPackageInfo list) \<times> client_state" where
  "get_work_packages_body E project_id filters s =
     (let filters' = (if filters = JNull then default_filters else filters);
          req = WorkPackagesReq filters' project_id;
          s' = s\<lparr>calls := calls s @ [req]\<rparr>
      in case api E (calls s) req of
           Inl e \<Rightarrow> (Inl (client_except E ''get work packages for project'' project_id e), s')
         | Inr work_packages_result \<Rightarrow>
             (case extract_work_packages_data E work_packages_result of
                Inl e \<Rightarrow> (Inl (client_except E ''get work packages for project'' project_id e), s')
              | Inr work_packages_data \<Rightarrow> (Inr work_packages_data, s')))"

definition get_work_packages ::
  "env \<Rightarrow> json \<Rightarrow> json \<Rightarrow> client_state \<Rightarrow> (exn + WorkPackageInfo list) \<times> client_state" where
  "get_work_packages E project_id filters =
     on_exception (max_tries - 1) 0 (get_work_packages_body E project_id filters)"

text \<open>
  \<open>get_weekly_report\<close>: \<open>asyncio.gather(..., return_exceptions=True)\<close> runs both
  operations to completion and hands back each result or exception; the project's
  exception is re-raised first, then the work packages'. The two operations touch
  different endpoints; their requests are recorded in task-creation order.
\<close>

definition get_weekly_report ::
  "env \<Rightarrow> json \<Rightarrow> json \<Rightarrow> client_state \<Rightarrow> (exn + WeeklyReportData) \<times> client_state" where
  "get_weekly_report E project_id week s =
     (case get_project E project_id s of (project, s1) \<Rightarrow>
      case get_work_packages E project_id JNull s1 of (work_packages, s2) \<Rightarrow>
        (case project of
           Inl e \<Rightarrow> (Inl e, s2)
         | Inr p \<Rightarrow>
             (case work_packages of
                Inl e \<Rightarrow> (Inl e, s2)
              | Inr wps \<Rightarrow>
                  (WeeklyReportData_init p wps
                     (if truthy week then week else JStr ''current'')
                     (''Found '' @ str_nat (length wps) @ '' work packages''), s2))))"

section \<open>The MCP core\<close>

text \<open>
  A tool descriptor. The input schema is the JSON document written in the source.
\<close>

record Tool =
  name :: string
  description :: string
  inputSchema :: json

text \<open>
  The core reads two settings from the process environment when it creates the backend
  client on the first tool call: \<open>MAX_CONNECTIONS\<close>, as the result of \<open>int(...)\<close> on
  its text (\<open>None\<close> when the text is no integer), and the API key. Afterwards it owns the
  client with its observable effects.
\<close>

record MCPCore =
  max_connections :: "int option"
  api_key :: string
  client :: "client_state option"

definition list_tools :: "MCPCore \<Rightarrow> Tool list" where
  "list_tools self =
     [\<lparr>name = ''get_project'',
       description = ''Get project information by ID'',
       inputSchema = JDict
         [(''type'', JStr ''object''),
          (''properties'', JDict
             [(''project_id'', JDict
                 [(''type'', JStr ''integer''),
                  (''description'', JStr ''Project ID to retrieve'')])]),
          (''required'', JList [JStr ''project_id''])]\<rparr>,
      \<lparr>name = ''get_work_packages'',
       description = ''Get work packages for a project'',
       inputSchema = JDict
         [(''type'', JStr ''object''),
          (''properties'', JDict
             [(''project_id'', JDict
                 [(''type'', JStr ''integer''),
                  (''description'', JStr ''Project ID to get work packages for'')]),
              (''filters'', JDict
                 [(''type'', JStr ''array''),
                  (''description'', JStr ''Optional filters to apply''),
                  (''items'', JDict [(''type'', JStr ''object'')])])]),
          (''required'', JList [JStr ''project_id''])]\<rparr>,
      \<lparr>name = ''get_weekly_report'',
       description = ''Get weekly report data for a project'',
       inputSchema = JDict
         [(''type'', JStr ''object''),
          (''properties'', JDict
             [(''project_id'', JDict
                 [(''type'', JStr ''integer''),
                  (''description'', JStr ''Project ID to generate weekly report for'')]),
              (''week'', JDict
                 [(''type'', JStr ''string''),
                  (''description'', JStr ''Week identifier (e.g., '2024-W42')'')])]),
          (''required'', JList [JStr ''project_id''])]\<rparr>]"

text \<open>Subscripting a decoded JSON document; \<open>JNull\<close> where there is nothing to find.\<close>

fun json_get :: "json \<Rightarrow> string \<Rightarrow> json" where
  "json_get (JDict d) k = dict_get d k JNull"
| "json_get v k = JNull"

text \<open>
  The dictionary a handler passes to \<open>json.dumps\<close> for the text content of its
  \<open>CallToolResult\<close>.
\<close>

datatype CallToolResult =
    ProjectText ProjectInfo
  | WorkPackagesText json "WorkPackageInfo list"
  | WeeklyReportText WeeklyReportData
  | ErrorText string

text \<open>
  \<open>OpenProjectClient.__init__\<close> first builds the \<open>HTTPClientManager\<close>, whose semaphore
  needs a non-negative integer, and then raises the client module's own
  \<open>AuthenticationError\<close> when the API key is empty.
\<close>

definition create_client :: "MCPCore \<Rightarrow> exn + client_state" where
  "create_client self =
     (case max_connections self of
        None \<Rightarrow> Inl (ValueError ''invalid literal for int() with base 10'')
      | Some n \<Rightarrow>
          if n < 0 then Inl (ValueError ''Semaphore initial value must be >= 0'')
          else if api_key self = []
          then Inl (FallbackAuthenticationError ''OpenProject API key not configured. Please set OPENPROJECT_API_KEY environment variable.'')
          else Inr \<lparr>calls = [], sleeps = []\<rparr>)"

definition handle_get_project ::
  "env \<Rightarrow> (string \<times> json) list \<Rightarrow> client_state \<Rightarrow> (exn + CallToolResult) \<times> client_state" where
  "handle_get_project E arguments c =
     (let project_id = dict_get arguments ''project_id'' JNull
      in if \<not> truthy project_id then (Inl (ValueError ''project_id is required''), c)
         else case get_project E project_id c of
                (Inl e, c') \<Rightarrow> (Inl e, c')
              | (Inr project, c') \<Rightarrow> (Inr (ProjectText project), c'))"

definition handle_get_work_packages ::
  "env \<Rightarrow> (string \<times> json) list \<Rightarrow> client_state \<Rightarrow> (exn + CallToolResult) \<times> client_state" where
  "handle_get_work_packages E arguments c =
     (let project_id = dict_get arguments ''project_id'' JNull;
          filters = dict_get arguments ''filters'' JNull
      in if \<not> truthy project_id then (Inl (ValueError ''project_id is required''), c)
         else case get_work_packages E project_id filters c of
                (Inl e, c') \<Rightarrow> (Inl e, c')
              | (Inr work_packages, c') \<Rightarrow> (Inr (WorkPackagesText project_id work_packages), c'))"

definition handle_get_weekly_report ::
  "env \<Rightarrow> (string \<times> json) list \<Rightarrow> client_state \<Rightarrow> (exn + CallToolResult) \<times> client_state" where
  "handle_get_weekly_report E arguments c =
     (let project_id = dict_get arguments ''project_id'' JNull;
          week = dict_get arguments ''week'' JNull
      in if \<not> truthy project_id then (Inl (ValueError ''project_id is required''), c)
         else case get_weekly_report E project_id week c of
                (Inl e, c') \<Rightarrow> (Inl e, c')
              | (Inr report, c') \<Rightarrow> (Inr (WeeklyReportText report), c'))"

text \<open>The three \<open>except\<close> clauses of \<open>_call_tool\<close>, in the source's order.\<close>

fun call_tool_except :: "exn \<Rightarrow> CallToolResult" where
  "call_tool_except (ValueError m) = ErrorText (''Invalid arguments: '' @ m)"
| "call_tool_except (PydanticValidationError m) = ErrorText (''Invalid arguments: '' @ m)"
| "call_tool_except (JSONDecodeError m) = ErrorText (''Invalid arguments: '' @ m)"
| "call_tool_except (KeyError m) = ErrorText (''Invalid arguments: '' @ m)"
| "call_tool_except (OpenProjectClientError m er) = ErrorText (''OpenProject API error: '' @ m)"
| "call_tool_except (OpenProjectConnectionError m) = ErrorText (''OpenProject API error: '' @ m)"
| "call_tool_except (OpenProjectAuthenticationError m er) = ErrorText (''OpenProject API error: '' @ m)"
| "call_tool_except (OpenProjectRateLimitError m) = ErrorText (''OpenProject API error: '' @ m)"
| "call_tool_except (AuthenticationError m) = ErrorText (''OpenProject API error: '' @ m)"
| "call_tool_except (SecurityError m) = ErrorText (''OpenProject API error: '' @ m)"
| "call_tool_except e = ErrorText (''Unexpected error: '' @ exn_str e)"

definition call_tool ::
  "env \<Rightarrow> string \<Rightarrow> (string \<times> json) list \<Rightarrow> MCPCore \<Rightarrow> CallToolResult \<times> MCPCore" where
  "call_tool E tool arguments self =
     (case (case client self of None \<Rightarrow> create_client self | Some c \<Rightarrow> Inr c) of
        Inl e \<Rightarrow> (call_tool_except e, self)
      | Inr c \<Rightarrow>
          (case (if tool = ''get_project'' then handle_get_project E arguments c
                 else if tool = ''get_work_packages'' then handle_get_work_packages E arguments c
                 else if tool = ''get_weekly_report'' then handle_get_weekly_report E arguments c
                 else (Inl (ValueError (''Unknown tool: '' @ tool)), c)) of
             (Inl e, c') \<Rightarrow> (call_tool_except e, self\<lparr>client := Some c'\<rparr>)
           | (Inr res, c') \<Rightarrow> (res, self\<lparr>client := Some c'\<rparr>)))"

section \<open>The stdio transport of the FastAPI server\<close>

subsection \<open>Tool handlers\<close>

text \<open>
  The dictionary a tool handler returns (\<open>MCPResponse(data=...)\<close>), or the plain
  dictionary built for an unknown tool.
\<close>

datatype tool_result =
    WeeklyReportResult WeeklyReportData
  | ProjectDataResult ProjectInfo "WorkPackageInfo list"
  | UnknownToolResult string

text \<open>
  Both handlers receive the \<open>arguments\<close> value of the request and the server's client,
  which is \<open>None\<close> until the server state has been initialised. Calling \<open>.get\<close> on
  anything but a dictionary, or a method on \<open>None\<close>, raises \<open>AttributeError\<close>.
\<close>

definition handle_fetch_weekly_report ::
  "env \<Rightarrow> json \<Rightarrow> client_state option \<Rightarrow> (exn + tool_result) \<times> client_state option" where
  "handle_fetch_weekly_report E params cl =
     (case params of
        JDict p \<Rightarrow>
          (let project_id = dict_get p ''project_id'' JNull;
               week = dict_get p ''week'' JNull
           in if \<not> truthy project_id then (Inl (ValidationError ''project_id is required''), cl)
              else case cl of
                     None \<Rightarrow> (Inl (AttributeError ''NoneType object has no attribute get_weekly_report''), cl)
                   | Some c \<Rightarrow>
                       (case get_weekly_report E project_id week c of
                          (Inl e, c') \<Rightarrow> (Inl e, Some c')
                        | (Inr report_data, c') \<Rightarrow> (Inr (WeeklyReportResult report_data), Some c')))
      | _ \<Rightarrow> (Inl (AttributeError ''object has no attribute get''), cl))"

definition handle_get_project_data ::
  "env \<Rightarrow> json \<Rightarrow> client_state option \<Rightarrow> (exn + tool_result) \<times> client_state option" where
  "handle_get_project_data E params cl =
     (case params of
        JDict p \<Rightarrow>
          (let project_id = dict_get p ''project_id'' JNull
           in if \<not> truthy project_id then (Inl (ValidationError ''project_id is required''), cl)
              else case cl of
                     None \<Rightarrow> (Inl (AttributeError ''NoneType object has no attribute get_project''), cl)
                   | Some c \<Rightarrow>
                       (case get_project E project_id c of
                          (Inl e, c1) \<Rightarrow> (Inl e, Some c1)
                        | (Inr project_data, c1) \<Rightarrow>
                            (case get_work_packages E project_id JNull c1 of
                               (Inl e, c2) \<Rightarrow> (Inl e, Some c2)
                             | (Inr work_packages, c2) \<Rightarrow>
                                 (Inr (ProjectDataResult project_data work_packages), Some c2))))
      | _ \<Rightarrow> (Inl (AttributeError ''object has no attribute get''), cl))"

subsection \<open>Responses\<close>

text \<open>
  A line written to stdout is one JSON-RPC response: the id it echoes and either a result
  or an error with code and message. The constant result documents of \<open>initialize\<close>,
  \<open>tools/list\<close> and \<open>resources/list\<close> are named, not spelled out.
\<close>

datatype rpc_result =
    InitializeResult
  | ToolsListResult
  | ToolCallResult tool_result
  | ResourcesListResult
  | NullResult

datatype rpc_body =
    Result rpc_result
  | Error int string

datatype response = Response json rpc_body

text \<open>
  \<open>json.dumps\<close> raises \<open>TypeError\<close> on a value it cannot encode; in this model that is
  an attribute object inside a description dictionary.
\<close>

fun serializable :: "pyval \<Rightarrow> bool" where
  "serializable (PObj attrs) = False"
| "serializable (PList xs) = list_all serializable xs"
| "serializable (PDict d) = list_all (\<lambda>kv. serializable (snd kv)) d"
| "serializable v = True"

definition description_ok :: "(string \<times> pyval) list option \<Rightarrow> bool" where
  "description_ok d = (case d of None \<Rightarrow> True | Some kvs \<Rightarrow> serializable (PDict kvs))"

fun dumps_ok :: "rpc_body \<Rightarrow> bool" where
  "dumps_ok (Result (ToolCallResult (WeeklyReportResult r))) =
     (description_ok (pi_description (wr_project r))
      \<and> list_all (\<lambda>w. description_ok (wp_description w)) (wr_work_packages r))"
| "dumps_ok (Result (ToolCallResult (ProjectDataResult p wps))) =
     (description_ok (pi_description p) \<and> list_all (\<lambda>w. description_ok (wp_description w)) wps)"
| "dumps_ok b = True"

subsection \<open>The read loop\<close>

text \<open>
  The loop's state: the server's client, the local variable \<open>request_id\<close> (unbound until
  a first envelope has passed validation, and kept from one iteration to the next), and the
  lines written to stdout so far.
\<close>

record stdio_state =
  openproject_client :: "client_state option"
  request_id :: "json option"
  stdout :: "response list"

definition is_space :: "char \<Rightarrow> bool" where
  "is_space c = (c \<in> set [CHR 0x09, CHR 0x0A, CHR 0x0B, CHR 0x0C, CHR 0x0D, CHR 0x1C, CHR 0x1D,
                          CHR 0x1E, CHR 0x1F, CHR 0x20, CHR 0x85, CHR 0xA0])"

definition strip :: "string \<Rightarrow> string" where
  "strip s = rev (dropWhile is_space (rev (dropWhile is_space s)))"

definition print :: "response \<Rightarrow> stdio_state \<Rightarrow> stdio_state" where
  "print r st = st\<lparr>stdout := stdout st @ [r]\<rparr>"

text \<open>The handler \<open>except Exception\<close> of the loop body.\<close>

definition internal_error :: "exn \<Rightarrow> stdio_state \<Rightarrow> stdio_state" where
  "internal_error e st =
     print (Response (case request_id st of Some i \<Rightarrow> i | None \<Rightarrow> JNull)
              (Error (- 32603) (''Internal error: '' @ exn_str e))) st"

text \<open>
  The two \<open>except\<close> clauses of the loop body, in the source's order: an exception
  raised anywhere in the body is answered as a parse error when it is a
  \<open>JSONDecodeError\<close>, and as an internal error otherwise.
\<close>

fun loop_except :: "exn \<Rightarrow> stdio_state \<Rightarrow> stdio_state" where
  "loop_except (JSONDecodeError msg) st =
     print (Response JNull (Error (- 32700) (''Parse error: '' @ msg))) st"
| "loop_except e st = internal_error e st"

text \<open>Method dispatch: the response body, or the exception raised on the way.\<close>

definition dispatch ::
  "env \<Rightarrow> json \<Rightarrow> json \<Rightarrow> client_state option \<Rightarrow> (exn + rpc_body) \<times> client_state option" where
  "dispatch E method params cl =
     (if method = JStr ''initialize'' then (Inr (Result InitializeResult), cl)
      else if method = JStr ''tools/list'' then (Inr (Result ToolsListResult), cl)
      else if method = JStr ''tools/call'' then
        (case params of
           JDict p \<Rightarrow>
             (let tool_name = dict_get p ''name'' JNull;
                  tool_params = dict_get p ''arguments'' (JDict [])
              in if tool_name = JStr ''fetch_weekly_report'' then
                   (case handle_fetch_weekly_report E tool_params cl of
                      (Inl e, cl') \<Rightarrow> (Inl e, cl')
                    | (Inr r, cl') \<Rightarrow> (Inr (Result (ToolCallResult r)), cl'))
                 else if tool_name = JStr ''get_project_data'' then
                   (case handle_get_project_data E tool_params cl of
                      (Inl e, cl') \<Rightarrow> (Inl e, cl')
                    | (Inr r, cl') \<Rightarrow> (Inr (Result (ToolCallResult r)), cl'))
                 else (Inr (Result (ToolCallResult
                         (UnknownToolResult (''Unknown tool: '' @ py_str E tool_name)))), cl))
         | _ \<Rightarrow> (Inl (AttributeError ''object has no attribute get''), cl))
      else if method = JStr ''resources/list'' then (Inr (Result ResourcesListResult), cl)
      else if method \<in> set [JStr ''initialized'', JStr ''notifications/tools/list_changed'',
                             JStr ''notifications/resources/list_changed'']
        then (Inr (Result NullResult), cl)
      else (Inr (Error (- 32601) (''Method not found: '' @ py_str E method)), cl))"

text \<open>One iteration of the loop on a line that \<open>readline\<close> returned (not end of input).\<close>

definition stdio_line :: "env \<Rightarrow> string \<Rightarrow> stdio_state \<Rightarrow> stdio_state" where
  "stdio_line E raw st =
     (let line = strip raw
      in if line = [] then st
         else case json_loads E line of
           Inl e \<Rightarrow> loop_except e st
         | Inr request_data \<Rightarrow>
             (case request_data of
                JDict d \<Rightarrow>
                  (if dict_get d ''jsonrpc'' JNull \<noteq> JStr ''2.0'' then
                     print (Response (dict_get d ''id'' JNull)
                              (Error (- 32600) ''Invalid Request: Must be JSON-RPC 2.0'')) st
                   else
                     (let method = dict_get d ''method'' JNull;
                          params = dict_get d ''params'' (JDict []);
                          rid = dict_get d ''id'' JNull;
                          st1 = st\<lparr>request_id := Some rid\<rparr>
                      in case dispatch E method params (openproject_client st1) of
                           (Inl e, cl) \<Rightarrow> loop_except e (st1\<lparr>openproject_client := cl\<rparr>)
                         | (Inr body, cl) \<Rightarrow>
                             (if dumps_ok body
                              then print (Response rid body) (st1\<lparr>openproject_client := cl\<rparr>)
                              else loop_except (TypeError ''Object is not JSON serializable'')
                                     (st1\<lparr>openproject_client := cl\<rparr>))))
              | _ \<Rightarrow> loop_except (AttributeError ''object has no attribute get'') st))"


section \<open>The connection limit\<close>

text \<open>
  \<open>HTTPClientManager\<close> creates a semaphore with \<open>MAX_CONNECTIONS\<close> permits;
  \<open>request_context\<close> holds one permit for the duration of its block and makes the caller
  wait while none is free. \<open>OpenProjectClient.get_project\<close> awaits the generated API
  client directly and does not enter \<open>request_context\<close>. Concurrent callers are modelled
  by the sequence of their steps: entering and leaving \<open>request_context\<close>, a
  \<open>get_project\<close> call sending its backend request and receiving the reply. A step that is
  not enabled (a caller that has to wait) yields \<open>None\<close>.
\<close>

record pool_state =
  permits :: nat
  in_context :: nat
  in_flight :: nat

datatype pool_event =
    EnterRequestContext
  | ExitRequestContext
  | GetProjectSend
  | GetProjectReply

definition HTTPClientManager_init :: "nat \<Rightarrow> pool_state" where
  "HTTPClientManager_init n = \<lparr>permits = n, in_context = 0, in_flight = 0\<rparr>"

fun pool_step :: "pool_state \<Rightarrow> pool_event \<Rightarrow> pool_state option" where
  "pool_step p EnterRequestContext =
     (if 0 < permits p
      then Some (p\<lparr>permits := permits p - 1, in_context := in_context p + 1\<rparr>)
      else None)"
| "pool_step p ExitRequestContext =
     (if 0 < in_context p
      then Some (p\<lparr>permits := permits p + 1, in_context := in_context p - 1\<rparr>)
      else None)"
| "pool_step p GetProjectSend = Some (p\<lparr>in_flight := in_flight p + 1\<rparr>)"
| "pool_step p GetProjectReply =
     (if 0 < in_flight p then Some (p\<lparr>in_flight := in_flight p - 1\<rparr>) else None)"

fun pool_run :: "pool_state \<Rightarrow> pool_event list \<Rightarrow> pool_state option" where
  "pool_run p [] = Some p"
| "pool_run p (ev # evs) = (case pool_step p ev of None \<Rightarrow> None | Some p' \<Rightarrow> pool_run p' evs)"

section \<open>Sample environments\<close>

text \<open>
  Concrete backends and input lines on which the definitions above are run. The decoder
  is the excerpt of \<open>json.loads\<close> on the sample lines; every other text is rejected with
  the decoder's error for a document that does not start with a value. None of the runs
  below formats a container or converts a string to an integer, so the sample
  environment leaves \<open>py_repr\<close> and \<open>str_as_int\<close> uninformative.
\<close>

definition demo_project :: pyval where
  "demo_project = PDict [(''id'', PInt 42), (''name'', PStr ''Demo''), (''identifier'', PStr ''demo'')]"

definition demo_work_packages :: pyval where
  "demo_work_packages =
     PDict [(''_embedded'', PDict [(''elements'', PList
        [PDict [(''id'', PInt 1), (''subject'', PStr ''Write report'')],
         PDict [(''id'', PInt 2), (''subject'', PStr ''Review report'')]])])]"

definition demo_api :: "call list \<Rightarrow> call \<Rightarrow> exn + pyval" where
  "demo_api history req =
     (case req of ProjectReq i \<Rightarrow> Inr demo_project | WorkPackagesReq f i \<Rightarrow> Inr demo_work_packages)"

text \<open>A backend whose first answer is a connection failure and which works afterwards.\<close>

definition flaky_api :: "call list \<Rightarrow> call \<Rightarrow> exn + pyval" where
  "flaky_api history req =
     (if history = [] then Inl (RequestError ''All connection attempts failed'')
      else demo_api history req)"

text \<open>A backend that serves projects while its work-package endpoint is unreachable.\<close>

definition wp_down_api :: "call list \<Rightarrow> call \<Rightarrow> exn + pyval" where
  "wp_down_api history req =
     (case req of
        ProjectReq i \<Rightarrow> Inr demo_project
      | WorkPackagesReq f i \<Rightarrow> Inl (RequestError ''All connection attempts failed''))"

text \<open>A backend that cannot be reached at all.\<close>

definition down_api :: "call list \<Rightarrow> call \<Rightarrow> exn + pyval" where
  "down_api history req = Inl (RequestError ''All connection attempts failed'')"

text \<open>
  A backend that answers with an attribute object carrying no \<open>id\<close>, and responses
  that lack a required field.
\<close>

definition idless_project :: pyval where
  "idless_project = PObj [(''name'', PStr ''Demo''), (''identifier'', PStr ''demo'')]"

definition idless_api :: "call list \<Rightarrow> call \<Rightarrow> exn + pyval" where
  "idless_api history req = Inr idless_project"

definition nameless_project :: pyval where
  "nameless_project = PObj [(''id'', PInt 7), (''identifier'', PStr ''demo'')]"

definition nameless_dict :: "(string \<times> pyval) list" where
  "nameless_dict = [(''id'', PInt 7), (''identifier'', PStr ''demo'')]"

definition subjectless_dict :: "(string \<times> pyval) list" where
  "subjectless_dict = [(''id'', PInt 3)]"

definition demo_project_info :: ProjectInfo where
  "demo_project_info =
     \<lparr>pi_id = 42, pi_name = ''Demo'', pi_identifier = ''demo'', pi_description = None,
      pi_created_at = None, pi_updated_at = None\<rparr>"

definition demo_work_package_infos :: "WorkPackageInfo list" where
  "demo_work_package_infos =
     [\<lparr>wp_id = Some 1, wp_subject = ''Write report'', wp_description = None, wp_status = None,
       wp_priority = None, wp_assignee = None, wp_due_date = None,
       wp_created_at = None, wp_updated_at = None\<rparr>,
      \<lparr>wp_id = Some 2, wp_subject = ''Review report'', wp_description = None, wp_status = None,
       wp_priority = None, wp_assignee = None, wp_due_date = None,
       wp_created_at = None, wp_updated_at = None\<rparr>]"

definition line_blank :: string where
  "line_blank = [CHR 0x20, CHR 0x20, CHR 0x0A]"

definition line_garbage :: string where
  "line_garbage = ''{not json''"

definition line_initialized :: string where
  \<open>line_initialized = ''{"jsonrpc":"2.0","method":"initialized"}''\<close>

definition line_tools_list :: string where
  \<open>line_tools_list = ''{"jsonrpc":"2.0","id":7,"method":"tools/list"}''\<close>

text \<open>A line of 100000 opening brackets, nested too deeply for the decoder.\<close>

definition line_deep :: string where
  "line_deep = replicate 100000 (CHR ''['')"

definition demo_loads :: "string \<Rightarrow> exn + json" where
  "demo_loads s =
     (if s = line_deep then
        Inl (RecursionError
          ''maximum recursion depth exceeded while decoding a JSON array from a unicode string'')
      else if s = line_initialized then
        Inr (JDict [(''jsonrpc'', JStr ''2.0''), (''method'', JStr ''initialized'')])
      else if s = line_tools_list then
        Inr (JDict [(''jsonrpc'', JStr ''2.0''), (''id'', JInt 7), (''method'', JStr ''tools/list'')])
      else if s = line_garbage then
        Inl (JSONDecodeError
          ''Expecting property name enclosed in double quotes: line 1 column 2 (char 1)'')
      else Inl (JSONDecodeError ''Expecting value: line 1 column 1 (char 0)''))"

definition demo_env :: env where
  "demo_env = \<lparr>json_loads = demo_loads, py_repr = (\<lambda>v. ''...''),
               str_as_int = (\<lambda>s. None), api = demo_api\<rparr>"

definition fresh_client :: client_state where
  "fresh_client = \<lparr>calls = [], sleeps = []\<rparr>"

definition fresh_stdio :: stdio_state where
  "fresh_stdio = \<lparr>openproject_client = Some fresh_client, request_id = None, stdout = []\<rparr>"

section \<open>Properties of the backend client\<close>

subsection \<open>Retries\<close>

text \<open>
  Whatever leaves the body of a client operation has passed through one of its two
  \<open>except\<close> clauses, and neither produces an exception of a class the decorator retries
  on. So the decorator never calls the body a second time.
\<close>

lemma client_except_not_retried: "\<not> retry_on (client_except E what pid e)"
  by (cases e) (simp_all add: api_exception_handler_def OpenProjectError_init_def)

lemma on_exception_no_retry:
  assumes "\<And>e s'. target s = (Inl e, s') \<Longrightarrow> \<not> retry_on e"
  shows "on_exception k n target s = target s"
  using assms by (cases k) (auto split: prod.splits sum.splits)

lemma get_project_body_not_retried:
  "get_project_body E pid s = (Inl e, s') \<Longrightarrow> \<not> retry_on e"
  by (auto simp: get_project_body_def Let_def client_except_not_retried split: sum.splits)

lemma get_work_packages_body_not_retried:
  "get_work_packages_body E pid f s = (Inl e, s') \<Longrightarrow> \<not> retry_on e"
  by (auto simp: get_work_packages_body_def Let_def client_except_not_retried split: sum.splits)

lemma get_project_single_attempt: "get_project E pid s = get_project_body E pid s"
  unfolding get_project_def by (rule on_exception_no_retry) (rule get_project_body_not_retried)

lemma get_work_packages_single_attempt:
  "get_work_packages E pid f s = get_work_packages_body E pid f s"
  unfolding get_work_packages_def
  by (rule on_exception_no_retry) (rule get_work_packages_body_not_retried)

lemma get_project_effects:
  "snd (get_project E pid s) = s\<lparr>calls := calls s @ [ProjectReq pid]\<rparr>"
  by (simp add: get_project_single_attempt get_project_body_def Let_def split: sum.splits)

lemma get_work_packages_effects:
  "snd (get_work_packages E pid f s) =
     s\<lparr>calls := calls s @ [WorkPackagesReq (if f = JNull then default_filters else f) pid]\<rparr>"
  by (simp add: get_work_packages_single_attempt get_work_packages_body_def Let_def split: sum.splits)

lemma get_weekly_report_effects:
  "snd (get_weekly_report E pid week s) =
     s\<lparr>calls := calls s @ [ProjectReq pid, WorkPackagesReq default_filters pid]\<rparr>"
proof -
  obtain p s1 where p: "get_project E pid s = (p, s1)" by (cases "get_project E pid s")
  obtain w s2 where w: "get_work_packages E pid JNull s1 = (w, s2)"
    by (cases "get_work_packages E pid JNull s1")
  have s1: "s1 = s\<lparr>calls := calls s @ [ProjectReq pid]\<rparr>"
    using get_project_effects [of E pid s] p by simp
  have s2: "s2 = s1\<lparr>calls := calls s1 @ [WorkPackagesReq default_filters pid]\<rparr>"
    using get_work_packages_effects [of E pid JNull s1] w by simp
  have "snd (get_weekly_report E pid week s) = s2"
    by (simp add: get_weekly_report_def p w split: sum.splits)
  then show ?thesis by (simp add: s1 s2)
qed

text \<open>
  C3: a transient failure (network or connection error) of \<open>get_project\<close> or
  \<open>get_work_packages\<close> is retried, for at most three attempts in total, while failures
  from status 401 or 404 are surfaced after exactly one request. The second half holds
  (\<open>get_project_single_attempt\<close>); the first does not: on a backend whose first answer
  is a connection failure and whose second would succeed, \<open>get_project\<close> issues one
  request, sleeps for no back-off delay, and raises.
\<close>

theorem get_project_transient_not_retried:
  "get_project (demo_env\<lparr>api := flaky_api\<rparr>) (JInt 42) fresh_client =
     (Inl (OpenProjectClientError ''Failed to get project 42: All connection attempts failed'' None),
      \<lparr>calls = [ProjectReq (JInt 42)], sleeps = []\<rparr>)"
  by (simp add: get_project_def max_tries_def numeral_2_eq_2 get_project_body_def
        demo_env_def flaky_api_def fresh_client_def str_int_def str_nat.simps digit_char_def)

subsection \<open>The weekly report\<close>

lemma WeeklyReportData_init_Inr:
  assumes "WeeklyReportData_init p wps wk summ = Inr r"
  shows "wr_project r = p \<and> wr_work_packages r = wps \<and> wr_summary r = Some summ \<and> wk = JStr (wr_week r)"
  using assms by (cases wk) (auto simp: WeeklyReportData_init_def)

lemma get_weekly_report_fst:
  assumes "get_project E pid s = (p, s1)" and "get_work_packages E pid JNull s1 = (w, s2)"
  shows "fst (get_weekly_report E pid week s) =
           (case p of Inl e \<Rightarrow> Inl e
            | Inr q \<Rightarrow> (case w of Inl e \<Rightarrow> Inl e
                | Inr wps \<Rightarrow> WeeklyReportData_init q wps
                     (if truthy week then week else JStr ''current'')
                     (''Found '' @ str_nat (length wps) @ '' work packages'')))"
  unfolding get_weekly_report_def assms(1) prod.case assms(2)
  by (cases p; cases w; simp)

text \<open>
  C2: \<open>get_weekly_report\<close> issues both sub-fetches and is all-or-nothing. If the project
  fetch fails, the report fails with that error (also when the work-package fetch fails
  too); if only the work-package fetch fails, the report fails with its error; and a
  report that is returned carries exactly the project and the work packages the two
  fetches returned. Both requests are issued in every case.
\<close>

theorem get_weekly_report_all_or_nothing:
  "(\<forall>e. fst (get_project E pid s) = Inl e \<longrightarrow> fst (get_weekly_report E pid week s) = Inl e) \<and>
   (\<forall>p e. fst (get_project E pid s) = Inr p \<and>
           fst (get_work_packages E pid JNull (snd (get_project E pid s))) = Inl e
           \<longrightarrow> fst (get_weekly_report E pid week s) = Inl e) \<and>
   (\<forall>r. fst (get_weekly_report E pid week s) = Inr r
        \<longrightarrow> fst (get_project E pid s) = Inr (wr_project r) \<and>
            fst (get_work_packages E pid JNull (snd (get_project E pid s))) = Inr (wr_work_packages r)) \<and>
   calls (snd (get_weekly_report E pid week s)) =
     calls s @ [ProjectReq pid, WorkPackagesReq default_filters pid]"
proof -
  obtain p s1 where p: "get_project E pid s = (p, s1)" by (cases "get_project E pid s")
  obtain w s2 where w: "get_work_packages E pid JNull s1 = (w, s2)"
    by (cases "get_work_packages E pid JNull s1")
  note f = get_weekly_report_fst [OF p w, of week]
  have a: "\<forall>e. p = Inl e \<longrightarrow> fst (get_weekly_report E pid week s) = Inl e"
    by (simp add: f)
  have b: "\<forall>q e. p = Inr q \<and> w = Inl e \<longrightarrow> fst (get_weekly_report E pid week s) = Inl e"
    by (simp add: f)
  have c: "\<forall>r. fst (get_weekly_report E pid week s) = Inr r
             \<longrightarrow> p = Inr (wr_project r) \<and> w = Inr (wr_work_packages r)"
  proof (intro allI impI)
    fix r assume r: "fst (get_weekly_report E pid week s) = Inr r"
    show "p = Inr (wr_project r) \<and> w = Inr (wr_work_packages r)"
    proof (cases p)
      case (Inl e) with r f show ?thesis by simp
    next
      case (Inr q)
      note q = this
      show ?thesis
      proof (cases w)
        case (Inl e) with r f q show ?thesis by simp
      next
        case (Inr wps)
        with r f q have "WeeklyReportData_init q wps
                     (if truthy week then week else JStr ''current'')
                     (''Found '' @ str_nat (length wps) @ '' work packages'') = Inr r" by simp
        from WeeklyReportData_init_Inr [OF this] q Inr show ?thesis by simp
      qed
    qed
  qed
  have d: "calls (snd (get_weekly_report E pid week s)) =
     calls s @ [ProjectReq pid, WorkPackagesReq default_filters pid]"
    by (simp add: get_weekly_report_effects)
  have p': "fst (get_project E pid s) = p" "snd (get_project E pid s) = s1" by (simp_all add: p)
  have w': "fst (get_work_packages E pid JNull s1) = w" by (simp add: w)
  show ?thesis unfolding p' w' using a b c d by blast
qed

subsection \<open>Runs on the sample backends\<close>

lemma extract_demo_project: "extract_project_data E demo_project = Inr demo_project_info"
  by (simp add: extract_project_data_def demo_project_def ProjectInfo_init_def
        ProjectInfo_fields_def dict_get_def demo_project_info_def)

lemma extract_demo_work_packages:
  "extract_work_packages_data E demo_work_packages = Inr demo_work_package_infos"
  by (simp add: extract_work_packages_data_def demo_work_packages_def work_packages_list_def
        work_package_of_def WorkPackageInfo_init_def WorkPackageInfo_fields_def dict_get_def
        demo_work_package_infos_def)

lemma get_project_demo:
  assumes "api E (calls s) (ProjectReq pid) = Inr demo_project"
  shows "fst (get_project E pid s) = Inr demo_project_info"
  by (simp add: get_project_single_attempt get_project_body_def Let_def assms extract_demo_project)

lemma get_project_unreachable:
  assumes "api E (calls s) (ProjectReq pid) = Inl (RequestError m)"
  shows "fst (get_project E pid s) =
           Inl (OpenProjectClientError (''Failed to get project '' @ py_str E pid @ '': '' @ m) None)"
  by (simp add: get_project_single_attempt get_project_body_def Let_def assms)

lemma get_work_packages_demo:
  assumes "api E (calls s) (WorkPackagesReq default_filters pid) = Inr demo_work_packages"
  shows "fst (get_work_packages E pid JNull s) = Inr demo_work_package_infos"
  by (simp add: get_work_packages_single_attempt get_work_packages_body_def Let_def assms
        extract_demo_work_packages)

lemma get_work_packages_unreachable:
  assumes "api E (calls s) (WorkPackagesReq default_filters pid) = Inl (RequestError m)"
  shows "fst (get_work_packages E pid JNull s) =
           Inl (OpenProjectClientError
                  (''Failed to get work packages for project '' @ py_str E pid @ '': '' @ m) None)"
  by (simp add: get_work_packages_single_attempt get_work_packages_body_def Let_def assms)

lemma str_int_42: "str_int 42 = ''42''"
  by (simp add: str_int_def str_nat.simps digit_char_def)

text \<open>
  The partial-failure scenario: the project is served and the work-package endpoint is
  unreachable, so the report fails with the work packages' error; with the whole backend
  unreachable the project's error is the one raised, and both requests were issued.
\<close>

theorem get_weekly_report_all_or_nothing_witness:
  "fst (get_weekly_report (demo_env\<lparr>api := wp_down_api\<rparr>) (JInt 42) (JStr ''2025-W41'') fresh_client)
     = Inl (OpenProjectClientError
              ''Failed to get work packages for project 42: All connection attempts failed'' None)
   \<and> fst (get_weekly_report (demo_env\<lparr>api := down_api\<rparr>) (JInt 42) (JStr ''2025-W41'') fresh_client)
     = Inl (OpenProjectClientError
              ''Failed to get project 42: All connection attempts failed'' None)
   \<and> calls (snd (get_weekly_report (demo_env\<lparr>api := down_api\<rparr>) (JInt 42) (JStr ''2025-W41'')
                    fresh_client))
     = [ProjectReq (JInt 42), WorkPackagesReq default_filters (JInt 42)]"
proof -
  let ?E = "demo_env\<lparr>api := wp_down_api\<rparr>" and ?D = "demo_env\<lparr>api := down_api\<rparr>"
  have p: "fst (get_project ?E (JInt 42) fresh_client) = Inr demo_project_info"
    by (rule get_project_demo) (simp add: wp_down_api_def)
  have w: "fst (get_work_packages ?E (JInt 42) JNull (snd (get_project ?E (JInt 42) fresh_client)))
             = Inl (OpenProjectClientError
                 ''Failed to get work packages for project 42: All connection attempts failed'' None)"
    using get_work_packages_unreachable
      [of ?E "snd (get_project ?E (JInt 42) fresh_client)" "JInt 42" "''All connection attempts failed''"]
    by (simp add: wp_down_api_def str_int_42)
  have d: "fst (get_project ?D (JInt 42) fresh_client)
             = Inl (OpenProjectClientError
                 ''Failed to get project 42: All connection attempts failed'' None)"
    using get_project_unreachable [of ?D fresh_client "JInt 42" "''All connection attempts failed''"]
    by (simp add: down_api_def str_int_42)
  have c0: "calls fresh_client = []" by (simp add: fresh_client_def)
  from get_weekly_report_all_or_nothing [of ?E "JInt 42" fresh_client "JStr ''2025-W41''"] p w
  have 1: "fst (get_weekly_report ?E (JInt 42) (JStr ''2025-W41'') fresh_client)
     = Inl (OpenProjectClientError
              ''Failed to get work packages for project 42: All connection attempts failed'' None)"
    by blast
  from get_weekly_report_all_or_nothing [of ?D "JInt 42" fresh_client "JStr ''2025-W41''"] d
  have 2: "fst (get_weekly_report ?D (JInt 42) (JStr ''2025-W41'') fresh_client)
     = Inl (OpenProjectClientError
              ''Failed to get project 42: All connection attempts failed'' None)"
    by blast
  from get_weekly_report_all_or_nothing [of ?D "JInt 42" fresh_client "JStr ''2025-W41''"] c0
  have 3: "calls (snd (get_weekly_report ?D (JInt 42) (JStr ''2025-W41'') fresh_client))
     = [ProjectReq (JInt 42), WorkPackagesReq default_filters (JInt 42)]"
    by simp
  from 1 2 3 show ?thesis by blast
qed

text \<open>
  C10: a report that \<open>get_weekly_report\<close> returns carries the supplied week verbatim
  when the argument is a non-empty string, the literal \<open>current\<close> when the argument is
  omitted or falsy, and the summary "Found n work packages" for the n work packages it
  holds.
\<close>

theorem get_weekly_report_week_and_summary:
  assumes "get_weekly_report E pid week s = (Inr report, s')"
  shows "(\<forall>w. week = JStr w \<and> w \<noteq> [] \<longrightarrow> wr_week report = w) \<and>
         (\<not> truthy week \<longrightarrow> wr_week report = ''current'') \<and>
         wr_summary report =
           Some (''Found '' @ str_nat (length (wr_work_packages report)) @ '' work packages'')"
proof -
  obtain p s1 where p: "get_project E pid s = (p, s1)" by (cases "get_project E pid s")
  obtain w s2 where w: "get_work_packages E pid JNull s1 = (w, s2)"
    by (cases "get_work_packages E pid JNull s1")
  from assms have r: "fst (get_weekly_report E pid week s) = Inr report" by simp
  note f = get_weekly_report_fst [OF p w, of week]
  from r f obtain q where q: "p = Inr q" by (cases p) simp_all
  from r f q obtain wps where wps: "w = Inr wps" by (cases w) simp_all
  from r f q wps have "WeeklyReportData_init q wps
                     (if truthy week then week else JStr ''current'')
                     (''Found '' @ str_nat (length wps) @ '' work packages'') = Inr report"
    by simp
  from WeeklyReportData_init_Inr [OF this]
  have 1: "wr_work_packages report = wps"
    and 2: "wr_summary report = Some (''Found '' @ str_nat (length wps) @ '' work packages'')"
    and 3: "(if truthy week then week else JStr ''current'') = JStr (wr_week report)"
    by simp_all
  from 3 have a: "\<forall>x. week = JStr x \<and> x \<noteq> [] \<longrightarrow> wr_week report = x" by auto
  from 3 have b: "\<not> truthy week \<longrightarrow> wr_week report = ''current''" by auto
  from a b 1 2 show ?thesis by simp
qed

lemma get_weekly_report_demo:
  "get_weekly_report demo_env pid week fresh_client =
     (WeeklyReportData_init demo_project_info demo_work_package_infos
        (if truthy week then week else JStr ''current'') ''Found 2 work packages'',
      \<lparr>calls = [ProjectReq pid, WorkPackagesReq default_filters pid], sleeps = []\<rparr>)"
proof -
  have p: "get_project demo_env pid fresh_client =
             (Inr demo_project_info, \<lparr>calls = [ProjectReq pid], sleeps = []\<rparr>)"
    by (simp add: get_project_single_attempt get_project_body_def Let_def extract_demo_project
          demo_env_def demo_api_def fresh_client_def)
  have w: "get_work_packages demo_env pid JNull \<lparr>calls = [ProjectReq pid], sleeps = []\<rparr> =
             (Inr demo_work_package_infos,
              \<lparr>calls = [ProjectReq pid, WorkPackagesReq default_filters pid], sleeps = []\<rparr>)"
    by (simp add: get_work_packages_single_attempt get_work_packages_body_def Let_def
          extract_demo_work_packages demo_env_def demo_api_def)
  have n: "str_nat (length demo_work_package_infos) = ''2''"
    by (simp add: demo_work_package_infos_def str_nat.simps digit_char_def)
  show ?thesis by (simp add: get_weekly_report_def p w n)
qed

text \<open>
  The round trip on the demo backend: project 42 with two work packages, once for week
  2025-W41 and once without a week.
\<close>

theorem get_weekly_report_week_and_summary_witness:
  "wr_week \<lparr>wr_project = demo_project_info, wr_work_packages = demo_work_package_infos,
            wr_week = ''2025-W41'', wr_summary = Some ''Found 2 work packages''\<rparr> = ''2025-W41''
   \<and> wr_week \<lparr>wr_project = demo_project_info, wr_work_packages = demo_work_package_infos,
            wr_week = ''current'', wr_summary = Some ''Found 2 work packages''\<rparr> = ''current''
   \<and> get_weekly_report demo_env (JInt 42) (JStr ''2025-W41'') fresh_client =
       (Inr \<lparr>wr_project = demo_project_info, wr_work_packages = demo_work_package_infos,
             wr_week = ''2025-W41'', wr_summary = Some ''Found 2 work packages''\<rparr>,
        \<lparr>calls = [ProjectReq (JInt 42), WorkPackagesReq default_filters (JInt 42)], sleeps = []\<rparr>)
   \<and> get_weekly_report demo_env (JInt 42) JNull fresh_client =
       (Inr \<lparr>wr_project = demo_project_info, wr_work_packages = demo_work_package_infos,
             wr_week = ''current'', wr_summary = Some ''Found 2 work packages''\<rparr>,
        \<lparr>calls = [ProjectReq (JInt 42), WorkPackagesReq default_filters (JInt 42)], sleeps = []\<rparr>)"
proof -
  have a: "get_weekly_report demo_env (JInt 42) (JStr ''2025-W41'') fresh_client =
       (Inr \<lparr>wr_project = demo_project_info, wr_work_packages = demo_work_package_infos,
             wr_week = ''2025-W41'', wr_summary = Some ''Found 2 work packages''\<rparr>,
        \<lparr>calls = [ProjectReq (JInt 42), WorkPackagesReq default_filters (JInt 42)], sleeps = []\<rparr>)"
    by (simp add: get_weekly_report_demo WeeklyReportData_init_def)
  have b: "get_weekly_report demo_env (JInt 42) JNull fresh_client =
       (Inr \<lparr>wr_project = demo_project_info, wr_work_packages = demo_work_package_infos,
             wr_week = ''current'', wr_summary = Some ''Found 2 work packages''\<rparr>,
        \<lparr>calls = [ProjectReq (JInt 42), WorkPackagesReq default_filters (JInt 42)], sleeps = []\<rparr>)"
    by (simp add: get_weekly_report_demo WeeklyReportData_init_def)
  from get_weekly_report_week_and_summary [OF a] get_weekly_report_week_and_summary [OF b] a b
  show ?thesis by simp
qed

section \<open>Properties of the typed views\<close>

lemma ProjectInfo_fields_Some:
  assumes "ProjectInfo_fields E kw = Some p"
  shows "(\<exists>v. map_of kw ''id'' = Some v \<and> validate_int E v = Some (pi_id p)) \<and>
         (\<exists>v. map_of kw ''name'' = Some v \<and> validate_str v = Some (pi_name p)) \<and>
         (\<exists>v. map_of kw ''identifier'' = Some v \<and> validate_str v = Some (pi_identifier p))"
  using assms unfolding ProjectInfo_fields_def
  by (auto simp: bind_eq_Some_conv)

lemma ProjectInfo_init_Inr:
  assumes "ProjectInfo_init E kw = Inr p"
  shows "(\<exists>v. map_of kw ''id'' = Some v \<and> validate_int E v = Some (pi_id p)) \<and>
         (\<exists>v. map_of kw ''name'' = Some v \<and> validate_str v = Some (pi_name p)) \<and>
         (\<exists>v. map_of kw ''identifier'' = Some v \<and> validate_str v = Some (pi_identifier p))"
proof -
  from assms have "ProjectInfo_fields E kw = Some p"
    by (simp add: ProjectInfo_init_def split: option.splits)
  then show ?thesis by (rule ProjectInfo_fields_Some)
qed

lemma WorkPackageInfo_init_Inr:
  assumes "WorkPackageInfo_init E kw = Inr w"
  shows "\<exists>v. map_of kw ''subject'' = Some v \<and> validate_str v = Some (wp_subject w)"
proof -
  from assms have "WorkPackageInfo_fields E kw = Some w"
    by (simp add: WorkPackageInfo_init_def split: option.splits)
  then show ?thesis unfolding WorkPackageInfo_fields_def
    by (auto simp: bind_eq_Some_conv)
qed

lemma validate_str_Some: "validate_str v = Some s \<Longrightarrow> v = PStr s"
  by (cases v) simp_all


lemma work_package_of_subjectless:
  assumes "map_of w ''subject'' = None"
  shows "work_package_of E (PDict w) =
           Some (Inl (PydanticValidationError ''validation error for WorkPackageInfo''))"
  using assms
  by (simp add: work_package_of_def WorkPackageInfo_init_def WorkPackageInfo_fields_def
        split: Option.bind_split)

lemma convert_work_packages_subjectless:
  assumes "PDict w \<in> set xs" and "map_of w ''subject'' = None"
  shows "\<exists>e. convert_work_packages E xs acc = Inl e"
  using assms(1)
proof (induction xs arbitrary: acc)
  case Nil
  then show ?case by simp
next
  case (Cons x xs)
  show ?case
  proof (cases "x = PDict w")
    case True
    then show ?thesis by (simp add: work_package_of_subjectless [OF assms(2)])
  next
    case False
    with Cons.prems have "PDict w \<in> set xs" by simp
    from Cons.IH [OF this] show ?thesis
      by (cases "work_package_of E x") (auto split: sum.splits)
  qed
qed

text \<open>
  C6, as stated: a backend response that lacks a required field (the project's name or
  identifier, a work package's subject) makes the mapping step fail and never yields a
  value holding a substituted default. For an attribute object this is not so: a project
  object without a name is mapped to a project named "Unknown Project".
\<close>

theorem missing_name_substituted_counterexample:
  "extract_project_data demo_env nameless_project =
     Inr \<lparr>pi_id = 7, pi_name = ''Unknown Project'', pi_identifier = ''demo'',
          pi_description = Some [], pi_created_at = Some [], pi_updated_at = Some []\<rparr>"
  by (simp add: extract_project_data_def nameless_project_def ProjectInfo_init_def
        ProjectInfo_fields_def dict_get_def)

text \<open>
  C6, amended: for a dictionary-shaped response a missing name or identifier makes the
  mapping of a project fail with a validation error, and a dictionary element without a
  subject makes the mapping of the work-package list fail; for an attribute object the
  mapping instead substitutes the defaults "Unknown Project" (name), the empty string
  (identifier) and the empty string (subject).
\<close>

theorem missing_required_field:
  "(map_of d ''name'' = None \<or> map_of d ''identifier'' = None
      \<longrightarrow> extract_project_data E (PDict d) =
            Inl (PydanticValidationError ''validation error for ProjectInfo'')) \<and>
   (work_packages_list r = Inr (PList xs) \<and> PDict w \<in> set xs \<and> map_of w ''subject'' = None
      \<longrightarrow> (\<exists>e. extract_work_packages_data E r = Inl e)) \<and>
   (map_of a ''name'' = None \<and> extract_project_data E (PObj a) = Inr p
      \<longrightarrow> pi_name p = ''Unknown Project'') \<and>
   (map_of a ''identifier'' = None \<and> extract_project_data E (PObj a) = Inr p
      \<longrightarrow> pi_identifier p = []) \<and>
   (map_of b ''subject'' = None \<and> work_package_of E (PObj b) = Some (Inr wp)
      \<longrightarrow> wp_subject wp = [])"
proof (intro conjI impI)
  assume "map_of d ''name'' = None \<or> map_of d ''identifier'' = None"
  then have "ProjectInfo_fields E d = None"
    unfolding ProjectInfo_fields_def by (auto split: Option.bind_split)
  then show "extract_project_data E (PDict d) =
            Inl (PydanticValidationError ''validation error for ProjectInfo'')"
    by (simp add: extract_project_data_def ProjectInfo_init_def)
next
  assume h: "work_packages_list r = Inr (PList xs) \<and> PDict w \<in> set xs \<and> map_of w ''subject'' = None"
  then obtain e where "convert_work_packages E xs [] = Inl e"
    using convert_work_packages_subjectless [of w xs E "[]"] by blast
  with h show "\<exists>e. extract_work_packages_data E r = Inl e"
    by (simp add: extract_work_packages_data_def)
next
  assume h: "map_of a ''name'' = None \<and> extract_project_data E (PObj a) = Inr p"
  then have g: "dict_get a ''name'' (PStr ''Unknown Project'') = PStr ''Unknown Project''"
    by (simp add: dict_get_def)
  from h have "ProjectInfo_init E
          [(''id'', dict_get a ''id'' (PInt 0)),
           (''name'', dict_get a ''name'' (PStr ''Unknown Project'')),
           (''identifier'', dict_get a ''identifier'' (PStr [])),
           (''description'', dict_get a ''description'' (PDict [])),
           (''created_at'', dict_get a ''created_at'' (PStr [])),
           (''updated_at'', dict_get a ''updated_at'' (PStr []))] = Inr p"
    by (simp add: extract_project_data_def)
  from ProjectInfo_init_Inr [OF this] show "pi_name p = ''Unknown Project''"
    by (simp add: g)
next
  assume h: "map_of a ''identifier'' = None \<and> extract_project_data E (PObj a) = Inr p"
  then have g: "dict_get a ''identifier'' (PStr []) = PStr []"
    by (simp add: dict_get_def)
  from h have "ProjectInfo_init E
          [(''id'', dict_get a ''id'' (PInt 0)),
           (''name'', dict_get a ''name'' (PStr ''Unknown Project'')),
           (''identifier'', dict_get a ''identifier'' (PStr [])),
           (''description'', dict_get a ''description'' (PDict [])),
           (''created_at'', dict_get a ''created_at'' (PStr [])),
           (''updated_at'', dict_get a ''updated_at'' (PStr []))] = Inr p"
    by (simp add: extract_project_data_def)
  from ProjectInfo_init_Inr [OF this] show "pi_identifier p = []"
    by (simp add: g)
next
  assume h: "map_of b ''subject'' = None \<and> work_package_of E (PObj b) = Some (Inr wp)"
  then have g: "dict_get b ''subject'' (PStr []) = PStr []"
    by (simp add: dict_get_def)
  from h have "WorkPackageInfo_init E
      [(''id'', dict_get b ''id'' PNone),
       (''subject'', dict_get b ''subject'' (PStr [])),
       (''description'', dict_get b ''description'' (PDict [])),
       (''status'', getattr (dict_get b ''status'' PNone) ''name'' PNone),
       (''priority'', getattr (dict_get b ''priority'' PNone) ''name'' PNone),
       (''assignee'', getattr (dict_get b ''assignee'' PNone) ''name'' PNone),
       (''due_date'', dict_get b ''due_date'' PNone),
       (''created_at'', dict_get b ''created_at'' PNone),
       (''updated_at'', dict_get b ''updated_at'' PNone)] = Inr wp"
    by (simp add: work_package_of_def)
  from WorkPackageInfo_init_Inr [OF this] show "wp_subject wp = []"
    by (simp add: g)
qed

text \<open>The amended C6 on concrete responses, one for each of its five parts.\<close>

theorem missing_required_field_witness:
  "extract_project_data demo_env (PDict nameless_dict) =
     Inl (PydanticValidationError ''validation error for ProjectInfo'')
   \<and> (\<exists>e. extract_work_packages_data demo_env (PList [PDict subjectless_dict]) = Inl e)
   \<and> (\<exists>p. extract_project_data demo_env nameless_project = Inr p \<and> pi_name p = ''Unknown Project'')
   \<and> (\<exists>p. extract_project_data demo_env (PObj [(''id'', PInt 7), (''name'', PStr ''Demo'')]) = Inr p
            \<and> pi_identifier p = [])
   \<and> (\<exists>wp. work_package_of demo_env (PObj [(''id'', PInt 3)]) = Some (Inr wp) \<and> wp_subject wp = [])"
proof -
  have n: "map_of nameless_dict ''name'' = None" by (simp add: nameless_dict_def)
  have l: "work_packages_list (PList [PDict subjectless_dict]) = Inr (PList [PDict subjectless_dict])"
    by (simp add: work_packages_list_def)
  have sj: "map_of subjectless_dict ''subject'' = None" by (simp add: subjectless_dict_def)
  have p1: "extract_project_data demo_env (PObj [(''id'', PInt 7), (''identifier'', PStr ''demo'')]) =
     Inr \<lparr>pi_id = 7, pi_name = ''Unknown Project'', pi_identifier = ''demo'',
          pi_description = Some [], pi_created_at = Some [], pi_updated_at = Some []\<rparr>"
    by (simp add: extract_project_data_def ProjectInfo_init_def ProjectInfo_fields_def dict_get_def)
  have p2: "extract_project_data demo_env (PObj [(''id'', PInt 7), (''name'', PStr ''Demo'')]) =
     Inr \<lparr>pi_id = 7, pi_name = ''Demo'', pi_identifier = [],
          pi_description = Some [], pi_created_at = Some [], pi_updated_at = Some []\<rparr>"
    by (simp add: extract_project_data_def ProjectInfo_init_def ProjectInfo_fields_def dict_get_def)
  have w1: "work_package_of demo_env (PObj [(''id'', PInt 3)]) =
     Some (Inr \<lparr>wp_id = Some 3, wp_subject = [], wp_description = Some [], wp_status = None,
       wp_priority = None, wp_assignee = None, wp_due_date = None,
       wp_created_at = None, wp_updated_at = None\<rparr>)"
    by (simp add: work_package_of_def WorkPackageInfo_init_def WorkPackageInfo_fields_def dict_get_def)
  note t1 = missing_required_field
    [where d = nameless_dict and E = demo_env and r = "PList [PDict subjectless_dict]"
       and xs = "[PDict subjectless_dict]" and w = subjectless_dict
       and a = "[(''id'', PInt 7), (''identifier'', PStr ''demo'')]"
       and p = "\<lparr>pi_id = 7, pi_name = ''Unknown Project'', pi_identifier = ''demo'',
          pi_description = Some [], pi_created_at = Some [], pi_updated_at = Some []\<rparr>"
       and b = "[(''id'', PInt 3)]"
       and wp = "\<lparr>wp_id = Some 3, wp_subject = [], wp_description = Some [], wp_status = None,
          wp_priority = None, wp_assignee = None, wp_due_date = None,
          wp_created_at = None, wp_updated_at = None\<rparr>"]
  note t2 = missing_required_field
    [where d = nameless_dict and E = demo_env
       and a = "[(''id'', PInt 7), (''name'', PStr ''Demo'')]"
       and p = "\<lparr>pi_id = 7, pi_name = ''Demo'', pi_identifier = [],
          pi_description = Some [], pi_created_at = Some [], pi_updated_at = Some []\<rparr>"]
  from t1 n have A: "extract_project_data demo_env (PDict nameless_dict) =
     Inl (PydanticValidationError ''validation error for ProjectInfo'')" by blast
  from t1 l sj have B: "\<exists>e. extract_work_packages_data demo_env (PList [PDict subjectless_dict]) = Inl e"
    by simp
  from t1 p1 have C: "\<exists>p. extract_project_data demo_env nameless_project = Inr p
                         \<and> pi_name p = ''Unknown Project''"
    by (simp add: nameless_project_def)
  from t2 p2 have F: "\<exists>p. extract_project_data demo_env (PObj [(''id'', PInt 7), (''name'', PStr ''Demo'')]) = Inr p
            \<and> pi_identifier p = []"
    by simp
  from t1 w1 have G: "\<exists>wp. work_package_of demo_env (PObj [(''id'', PInt 3)]) = Some (Inr wp)
                         \<and> wp_subject wp = []"
    by simp
  from A B C F G show ?thesis by blast
qed

lemma extract_project_data_id:
  assumes "extract_project_data E r = Inr p"
  shows "case r of
           PObj a \<Rightarrow> validate_int E (dict_get a ''id'' (PInt 0)) = Some (pi_id p)
         | PDict d \<Rightarrow> (\<exists>v. map_of d ''id'' = Some v \<and> validate_int E v = Some (pi_id p))
         | _ \<Rightarrow> False"
proof (cases r)
  case (PObj a)
  with assms have "ProjectInfo_init E
          [(''id'', dict_get a ''id'' (PInt 0)),
           (''name'', dict_get a ''name'' (PStr ''Unknown Project'')),
           (''identifier'', dict_get a ''identifier'' (PStr [])),
           (''description'', dict_get a ''description'' (PDict [])),
           (''created_at'', dict_get a ''created_at'' (PStr [])),
           (''updated_at'', dict_get a ''updated_at'' (PStr []))] = Inr p"
    by (simp add: extract_project_data_def)
  from ProjectInfo_init_Inr [OF this] PObj show ?thesis by simp
next
  case (PDict d)
  with assms have "ProjectInfo_init E d = Inr p" by (simp add: extract_project_data_def)
  from ProjectInfo_init_Inr [OF this] PDict show ?thesis by simp
qed (use assms in \<open>simp_all add: extract_project_data_def\<close>)

text \<open>
  C7, as stated: the id of every project that \<open>get_project\<close> returns is strictly
  positive. A backend that answers with an attribute object without an id yields a
  project whose id is 0.
\<close>

theorem project_id_not_positive_counterexample:
  "fst (get_project (demo_env\<lparr>api := idless_api\<rparr>) (JInt 42) fresh_client) =
     Inr \<lparr>pi_id = 0, pi_name = ''Demo'', pi_identifier = ''demo'',
          pi_description = Some [], pi_created_at = Some [], pi_updated_at = Some []\<rparr>"
  by (simp add: get_project_def max_tries_def numeral_2_eq_2 get_project_body_def
        idless_api_def fresh_client_def extract_project_data_def idless_project_def
        ProjectInfo_init_def ProjectInfo_fields_def dict_get_def)

text \<open>
  C7, amended: the id of a project that \<open>get_project\<close> returns is the integer that field
  validation makes of the id found in the backend's answer: the \<open>id\<close> attribute of an
  attribute object, with 0 taken when the attribute is absent, or the \<open>id\<close> key of a
  dictionary. No lower bound is imposed on it.
\<close>

theorem project_id_as_supplied:
  assumes "get_project E pid s = (Inr p, s')"
  shows "\<exists>r. api E (calls s) (ProjectReq pid) = Inr r \<and>
           (case r of
              PObj a \<Rightarrow> validate_int E (dict_get a ''id'' (PInt 0)) = Some (pi_id p)
            | PDict d \<Rightarrow> (\<exists>v. map_of d ''id'' = Some v \<and> validate_int E v = Some (pi_id p))
            | _ \<Rightarrow> False)"
proof -
  from assms have b: "get_project_body E pid s = (Inr p, s')"
    by (simp add: get_project_single_attempt)
  then obtain r where r: "api E (calls s) (ProjectReq pid) = Inr r"
    by (cases "api E (calls s) (ProjectReq pid)") (simp_all add: get_project_body_def Let_def)
  with b have "extract_project_data E r = Inr p"
    by (cases "extract_project_data E r") (simp_all add: get_project_body_def Let_def)
  from extract_project_data_id [OF this] r show ?thesis by blast
qed

text \<open>On the demo backend the answer's id is 42, and so is the project's.\<close>

theorem project_id_as_supplied_witness:
  "get_project demo_env (JInt 42) fresh_client =
     (Inr demo_project_info, \<lparr>calls = [ProjectReq (JInt 42)], sleeps = []\<rparr>)
   \<and> api demo_env (calls fresh_client) (ProjectReq (JInt 42)) = Inr demo_project
   \<and> pi_id demo_project_info = 42"
proof -
  have h: "get_project demo_env (JInt 42) fresh_client =
             (Inr demo_project_info, \<lparr>calls = [ProjectReq (JInt 42)], sleeps = []\<rparr>)"
    by (simp add: get_project_single_attempt get_project_body_def Let_def extract_demo_project
          demo_env_def demo_api_def fresh_client_def)
  have a: "api demo_env (calls fresh_client) (ProjectReq (JInt 42)) = Inr demo_project"
    by (simp add: demo_env_def demo_api_def)
  from project_id_as_supplied [OF h] a
  have "validate_int demo_env (PInt 42) = Some (pi_id demo_project_info)"
    by (simp add: demo_project_def)
  then have "pi_id demo_project_info = 42" by simp
  with h a show ?thesis by simp
qed

section \<open>Properties of the MCP core\<close>

text \<open>
  C9: the tool listing does not depend on the core's state: it is always the same three
  descriptors, named \<open>get_project\<close>, \<open>get_work_packages\<close> and \<open>get_weekly_report\<close> in
  this order, each with \<open>project_id\<close> as its only required parameter, of type integer.
\<close>

theorem list_tools_constant:
  "list_tools self = list_tools self' \<and>
   map name (list_tools self) = [''get_project'', ''get_work_packages'', ''get_weekly_report''] \<and>
   map (\<lambda>t. json_get (inputSchema t) ''required'') (list_tools self) =
     [JList [JStr ''project_id''], JList [JStr ''project_id''], JList [JStr ''project_id'']] \<and>
   map (\<lambda>t. json_get (json_get (json_get (inputSchema t) ''properties'') ''project_id'') ''type'')
       (list_tools self) = [JStr ''integer'', JStr ''integer'', JStr ''integer'']"
  by (simp add: list_tools_def dict_get_def)

text \<open>
  What the handlers' guard does reject: a \<open>project_id\<close> that is 0, absent or otherwise
  falsy. The tool call is then answered with "Invalid arguments: project_id is required"
  and the client is left without a new request; the \<open>fetch_weekly_report\<close> handler of
  the FastAPI server raises \<open>ValidationError\<close> on the same arguments.
\<close>

lemma falsy_project_id_rejected:
  assumes "\<not> truthy (dict_get arguments ''project_id'' JNull)"
  shows "(tool \<in> {''get_project'', ''get_work_packages'', ''get_weekly_report''} \<and> client self = Some c
            \<longrightarrow> call_tool E tool arguments self =
                  (ErrorText ''Invalid arguments: project_id is required'', self)) \<and>
         (tool \<in> {''get_project'', ''get_work_packages'', ''get_weekly_report''} \<and> client self = None
            \<and> max_connections self = Some n \<and> 0 \<le> n \<and> api_key self \<noteq> []
            \<longrightarrow> call_tool E tool arguments self =
                  (ErrorText ''Invalid arguments: project_id is required'',
                   self\<lparr>client := Some \<lparr>calls = [], sleeps = []\<rparr>\<rparr>)) \<and>
         handle_fetch_weekly_report E (JDict arguments) cl =
           (Inl (ValidationError ''project_id is required''), cl)"
proof (intro conjI impI)
  assume h: "tool \<in> {''get_project'', ''get_work_packages'', ''get_weekly_report''} \<and> client self = Some c"
  then have s: "self\<lparr>client := Some c\<rparr> = self" by simp
  from h assms show "call_tool E tool arguments self =
      (ErrorText ''Invalid arguments: project_id is required'', self)"
    by (auto simp: call_tool_def handle_get_project_def handle_get_work_packages_def
          handle_get_weekly_report_def Let_def s)
next
  assume h: "tool \<in> {''get_project'', ''get_work_packages'', ''get_weekly_report''} \<and> client self = None
            \<and> max_connections self = Some n \<and> 0 \<le> n \<and> api_key self \<noteq> []"
  with assms show "call_tool E tool arguments self =
                  (ErrorText ''Invalid arguments: project_id is required'',
                   self\<lparr>client := Some \<lparr>calls = [], sleeps = []\<rparr>\<rparr>)"
    by (auto simp: call_tool_def create_client_def handle_get_project_def
          handle_get_work_packages_def handle_get_weekly_report_def Let_def)
next
  from assms show "handle_fetch_weekly_report E (JDict arguments) cl =
           (Inl (ValidationError ''project_id is required''), cl)"
    by (simp add: handle_fetch_weekly_report_def Let_def)
qed

lemma falsy_project_id_rejected_example:
  "call_tool demo_env ''get_weekly_report'' [(''project_id'', JInt 0)]
       \<lparr>max_connections = Some 10, api_key = ''secret'', client = Some fresh_client\<rparr> =
     (ErrorText ''Invalid arguments: project_id is required'',
      \<lparr>max_connections = Some 10, api_key = ''secret'', client = Some fresh_client\<rparr>)
   \<and> call_tool demo_env ''get_project'' [(''project_id'', JInt 0)]
       \<lparr>max_connections = Some 10, api_key = ''secret'', client = None\<rparr> =
     (ErrorText ''Invalid arguments: project_id is required'',
      \<lparr>max_connections = Some 10, api_key = ''secret'', client = Some \<lparr>calls = [], sleeps = []\<rparr>\<rparr>)
   \<and> handle_fetch_weekly_report demo_env (JDict [(''project_id'', JInt 0)]) (Some fresh_client) =
     (Inl (ValidationError ''project_id is required''), Some fresh_client)"
proof -
  have f: "\<not> truthy (dict_get [(''project_id'', JInt 0)] ''project_id'' JNull)"
    by (simp add: dict_get_def)
  from falsy_project_id_rejected
         [OF f, where tool = "''get_weekly_report''" and E = demo_env and c = fresh_client
            and self = "\<lparr>max_connections = Some 10, api_key = ''secret'', client = Some fresh_client\<rparr>"
            and cl = "Some fresh_client"]
  have 1: "call_tool demo_env ''get_weekly_report'' [(''project_id'', JInt 0)]
       \<lparr>max_connections = Some 10, api_key = ''secret'', client = Some fresh_client\<rparr> =
     (ErrorText ''Invalid arguments: project_id is required'',
      \<lparr>max_connections = Some 10, api_key = ''secret'', client = Some fresh_client\<rparr>)"
    and 3: "handle_fetch_weekly_report demo_env (JDict [(''project_id'', JInt 0)]) (Some fresh_client) =
     (Inl (ValidationError ''project_id is required''), Some fresh_client)"
    by simp_all
  from falsy_project_id_rejected
         [OF f, where tool = "''get_project''" and E = demo_env and n = 10
            and self = "\<lparr>max_connections = Some 10, api_key = ''secret'', client = None\<rparr>"]
  have 2: "call_tool demo_env ''get_project'' [(''project_id'', JInt 0)]
       \<lparr>max_connections = Some 10, api_key = ''secret'', client = None\<rparr> =
     (ErrorText ''Invalid arguments: project_id is required'',
      \<lparr>max_connections = Some 10, api_key = ''secret'', client = Some \<lparr>calls = [], sleeps = []\<rparr>\<rparr>)"
    by simp
  from 1 2 3 show ?thesis by simp
qed

text \<open>
  C1: a tool call whose \<open>project_id\<close> is an integer not above 0 is answered with a
  validation error and reaches no backend operation. The code does not do this for
  negative integers: the handlers test the argument for truth only, so \<open>-1\<close> passes
  the guard. \<open>get_project\<close> of the MCP core issues the project request with it, and the
  \<open>fetch_weekly_report\<close> handler, whose declared input schema has minimum 1, issues both
  of its requests and returns a report.
\<close>

theorem negative_project_id_reaches_backend:
  "call_tool demo_env ''get_project'' [(''project_id'', JInt (- 1))]
       \<lparr>max_connections = Some 10, api_key = ''secret'', client = Some fresh_client\<rparr> =
     (ProjectText demo_project_info,
      \<lparr>max_connections = Some 10, api_key = ''secret'',
       client = Some \<lparr>calls = [ProjectReq (JInt (- 1))], sleeps = []\<rparr>\<rparr>)
   \<and> handle_fetch_weekly_report demo_env (JDict [(''project_id'', JInt (- 1))]) (Some fresh_client) =
     (Inr (WeeklyReportResult
             \<lparr>wr_project = demo_project_info, wr_work_packages = demo_work_package_infos,
              wr_week = ''current'', wr_summary = Some ''Found 2 work packages''\<rparr>),
      Some \<lparr>calls = [ProjectReq (JInt (- 1)), WorkPackagesReq default_filters (JInt (- 1))],
            sleeps = []\<rparr>)"
proof -
  have a: "call_tool demo_env ''get_project'' [(''project_id'', JInt (- 1))]
       \<lparr>max_connections = Some 10, api_key = ''secret'', client = Some fresh_client\<rparr> =
     (ProjectText demo_project_info,
      \<lparr>max_connections = Some 10, api_key = ''secret'',
       client = Some \<lparr>calls = [ProjectReq (JInt (- 1))], sleeps = []\<rparr>\<rparr>)"
    by (simp add: call_tool_def handle_get_project_def dict_get_def get_project_single_attempt
          get_project_body_def Let_def demo_env_def demo_api_def extract_demo_project
          fresh_client_def)
  have b: "handle_fetch_weekly_report demo_env (JDict [(''project_id'', JInt (- 1))])
             (Some fresh_client) =
     (Inr (WeeklyReportResult
             \<lparr>wr_project = demo_project_info, wr_work_packages = demo_work_package_infos,
              wr_week = ''current'', wr_summary = Some ''Found 2 work packages''\<rparr>),
      Some \<lparr>calls = [ProjectReq (JInt (- 1)), WorkPackagesReq default_filters (JInt (- 1))],
            sleeps = []\<rparr>)"
    by (simp add: handle_fetch_weekly_report_def dict_get_def Let_def get_weekly_report_demo
          WeeklyReportData_init_def)
  from a b show ?thesis by simp
qed

section \<open>Properties of the stdio transport\<close>

lemma stdout_print: "stdout (print r st) = stdout st @ [r]"
  by (simp add: print_def)

lemma stdout_internal_error:
  "stdout (internal_error e st) =
     stdout st @ [Response (case request_id st of Some i \<Rightarrow> i | None \<Rightarrow> JNull)
                    (Error (- 32603) (''Internal error: '' @ exn_str e))]"
  by (simp add: internal_error_def print_def)

lemma stdout_loop_except: "\<exists>r. stdout (loop_except e st) = stdout st @ [r]"
  by (cases e) (simp_all add: stdout_print stdout_internal_error)




lemma stdio_envelope_one_response:
  assumes "dict_get d ''jsonrpc'' JNull = JStr ''2.0''"
  shows "\<exists>r. stdout
     (let method = dict_get d ''method'' JNull;
          params = dict_get d ''params'' (JDict []);
          rid = dict_get d ''id'' JNull;
          st1 = st\<lparr>request_id := Some rid\<rparr>
      in case dispatch E method params (openproject_client st1) of
           (Inl e, cl) \<Rightarrow> loop_except e (st1\<lparr>openproject_client := cl\<rparr>)
         | (Inr body, cl) \<Rightarrow>
             (if dumps_ok body
              then print (Response rid body) (st1\<lparr>openproject_client := cl\<rparr>)
              else loop_except (TypeError ''Object is not JSON serializable'')
                     (st1\<lparr>openproject_client := cl\<rparr>))) = stdout st @ [r]"
proof -
  let ?st1 = "st\<lparr>request_id := Some (dict_get d ''id'' JNull)\<rparr>"
  obtain res cl where d: "dispatch E (dict_get d ''method'' JNull) (dict_get d ''params'' (JDict []))
                            (openproject_client ?st1) = (res, cl)"
    by (cases "dispatch E (dict_get d ''method'' JNull) (dict_get d ''params'' (JDict []))
                  (openproject_client ?st1)")
  show ?thesis
  proof (cases res)
    case (Inl e)
    from stdout_loop_except [of e "?st1\<lparr>openproject_client := cl\<rparr>"]
    show ?thesis unfolding Let_def d prod.case Inl by simp
  next
    case (Inr body)
    show ?thesis unfolding Let_def d prod.case Inr
      by (simp add: stdout_print stdout_internal_error)
  qed
qed

lemma stdio_line_one_response:
  assumes "strip raw \<noteq> []"
  shows "\<exists>r. stdout (stdio_line E raw st) = stdout st @ [r]"
proof (cases "json_loads E (strip raw)")
  case (Inl e)
  with assms stdout_loop_except [of e st] show ?thesis by (simp add: stdio_line_def)
next
  case (Inr request_data)
  show ?thesis
  proof (cases "\<exists>d. request_data = JDict d")
    case False
    with assms Inr show ?thesis
      by (cases request_data) (simp_all add: stdio_line_def stdout_internal_error)
  next
    case True
    then obtain d where d: "request_data = JDict d" by blast
    show ?thesis
    proof (cases "dict_get d ''jsonrpc'' JNull = JStr ''2.0''")
      case False
      with assms Inr d show ?thesis by (simp add: stdio_line_def stdout_print)
    next
      case True
      from stdio_envelope_one_response [OF True, of st E]
      show ?thesis using assms Inr d True unfolding stdio_line_def by simp
    qed
  qed
qed

lemma strip_samples:
  "strip line_blank = []"
  "strip line_garbage = line_garbage"
  "strip line_initialized = line_initialized"
  "strip line_tools_list = line_tools_list"
  by (simp_all add: strip_def is_space_def line_blank_def line_garbage_def line_initialized_def
        line_tools_list_def)


lemma length_samples:
  "length line_deep = 100000"
  "length line_garbage = 9"
  "length line_initialized = 40"
  "length line_tools_list = 46"
  by (simp_all add: line_deep_def line_garbage_def line_initialized_def line_tools_list_def)

lemma samples_not_deep:
  "[] \<noteq> line_deep"
  "line_garbage \<noteq> line_deep"
  "line_initialized \<noteq> line_deep"
  "line_tools_list \<noteq> line_deep"
proof -
  have "length s \<noteq> 100000 \<Longrightarrow> s \<noteq> line_deep" for s
    using length_samples(1) by auto
  then show "[] \<noteq> line_deep" "line_garbage \<noteq> line_deep" "line_initialized \<noteq> line_deep"
    "line_tools_list \<noteq> line_deep"
    by (simp_all add: length_samples)
qed

lemma demo_loads_samples:
  "demo_loads [] = Inl (JSONDecodeError ''Expecting value: line 1 column 1 (char 0)'')"
  "demo_loads line_garbage =
     Inl (JSONDecodeError
            ''Expecting property name enclosed in double quotes: line 1 column 2 (char 1)'')"
  "demo_loads line_initialized =
     Inr (JDict [(''jsonrpc'', JStr ''2.0''), (''method'', JStr ''initialized'')])"
  "demo_loads line_tools_list =
     Inr (JDict [(''jsonrpc'', JStr ''2.0''), (''id'', JInt 7), (''method'', JStr ''tools/list'')])"
  "demo_loads line_deep =
     Inl (RecursionError
            ''maximum recursion depth exceeded while decoding a JSON array from a unicode string'')"
proof -
  show "demo_loads line_deep =
     Inl (RecursionError
            ''maximum recursion depth exceeded while decoding a JSON array from a unicode string'')"
    by (simp add: demo_loads_def)
  show "demo_loads [] = Inl (JSONDecodeError ''Expecting value: line 1 column 1 (char 0)'')"
    unfolding demo_loads_def using samples_not_deep(1)
    by (simp add: line_garbage_def line_initialized_def line_tools_list_def)
  show "demo_loads line_garbage =
     Inl (JSONDecodeError
            ''Expecting property name enclosed in double quotes: line 1 column 2 (char 1)'')"
    unfolding demo_loads_def using samples_not_deep(2)
    by (simp add: line_garbage_def line_initialized_def line_tools_list_def)
  show "demo_loads line_initialized =
     Inr (JDict [(''jsonrpc'', JStr ''2.0''), (''method'', JStr ''initialized'')])"
    unfolding demo_loads_def using samples_not_deep(3) by simp
  show "demo_loads line_tools_list =
     Inr (JDict [(''jsonrpc'', JStr ''2.0''), (''id'', JInt 7), (''method'', JStr ''tools/list'')])"
    unfolding demo_loads_def using samples_not_deep(4)
    by (simp add: line_initialized_def line_tools_list_def)
qed

lemma sample_lines_nonempty:
  "line_blank \<noteq> []" "line_garbage \<noteq> []" "line_initialized \<noteq> []" "line_tools_list \<noteq> []"
  "line_deep \<noteq> []"
  by (simp_all add: line_blank_def line_garbage_def line_initialized_def line_tools_list_def
        line_deep_def)





text \<open>
  C5, as stated: an envelope with an id gets exactly one response, a notification (no id)
  gets none. The loop answers the \<open>initialized\<close> notification like any request, with a
  null result and a null id.
\<close>

theorem notification_answered_counterexample:
  "stdout (stdio_line demo_env line_initialized fresh_stdio) = [Response JNull (Result NullResult)]"
  by (simp add: stdio_line_def strip_samples sample_lines_nonempty demo_env_def demo_loads_samples
        dict_get_def dispatch_def print_def fresh_stdio_def Let_def)

lemma dispatch_notification:
  assumes "method \<in> {JStr ''initialized'', JStr ''notifications/tools/list_changed'',
                      JStr ''notifications/resources/list_changed''}"
  shows "dispatch E method params cl = (Inr (Result NullResult), cl)"
  using assms by (auto simp: dispatch_def)

text \<open>
  C5, amended: every line that is not blank after stripping white space gets exactly one
  response on stdout, whether or not its envelope carries an id; an envelope whose method
  is \<open>initialized\<close>, \<open>notifications/tools/list_changed\<close> or
  \<open>notifications/resources/list_changed\<close> is answered with a null result under the
  envelope's id (null when it has none).
\<close>

theorem one_response_per_line:
  assumes "strip raw \<noteq> []"
  shows "(\<exists>r. stdout (stdio_line E raw st) = stdout st @ [r]) \<and>
         (\<forall>d. json_loads E (strip raw) = Inr (JDict d) \<and>
              dict_get d ''jsonrpc'' JNull = JStr ''2.0'' \<and>
              dict_get d ''method'' JNull \<in>
                {JStr ''initialized'', JStr ''notifications/tools/list_changed'',
                 JStr ''notifications/resources/list_changed''}
            \<longrightarrow> stdout (stdio_line E raw st) =
                  stdout st @ [Response (dict_get d ''id'' JNull) (Result NullResult)])"
proof (intro conjI allI impI)
  show "\<exists>r. stdout (stdio_line E raw st) = stdout st @ [r]"
    by (rule stdio_line_one_response [OF assms])
next
  fix d
  assume h: "json_loads E (strip raw) = Inr (JDict d) \<and>
              dict_get d ''jsonrpc'' JNull = JStr ''2.0'' \<and>
              dict_get d ''method'' JNull \<in>
                {JStr ''initialized'', JStr ''notifications/tools/list_changed'',
                 JStr ''notifications/resources/list_changed''}"
  then have "dispatch E (dict_get d ''method'' JNull) params cl = (Inr (Result NullResult), cl)"
    for params cl
    using dispatch_notification by blast
  with h assms show "stdout (stdio_line E raw st) =
                  stdout st @ [Response (dict_get d ''id'' JNull) (Result NullResult)]"
    by (simp add: stdio_line_def Let_def print_def)
qed

text \<open>A request with id 7 and the \<open>initialized\<close> notification, one response each.\<close>

theorem one_response_per_line_witness:
  "strip line_tools_list \<noteq> [] \<and> strip line_initialized \<noteq> []
   \<and> (\<exists>r. stdout (stdio_line demo_env line_tools_list fresh_stdio) = stdout fresh_stdio @ [r])
   \<and> stdout (stdio_line demo_env line_initialized fresh_stdio) =
       stdout fresh_stdio @ [Response JNull (Result NullResult)]"
proof -
  have a: "strip line_tools_list \<noteq> []" and b: "strip line_initialized \<noteq> []"
    by (simp_all add: strip_samples sample_lines_nonempty)
  have l: "json_loads demo_env (strip line_initialized) =
             Inr (JDict [(''jsonrpc'', JStr ''2.0''), (''method'', JStr ''initialized'')])"
    by (simp add: demo_env_def strip_samples demo_loads_samples)
  from one_response_per_line [OF a, of demo_env fresh_stdio]
  have 1: "\<exists>r. stdout (stdio_line demo_env line_tools_list fresh_stdio) = stdout fresh_stdio @ [r]"
    by blast
  from one_response_per_line [OF b, of demo_env fresh_stdio] l
  have 2: "stdout (stdio_line demo_env line_initialized fresh_stdio) =
       stdout fresh_stdio @ [Response JNull (Result NullResult)]"
    by (simp add: dict_get_def)
  from a b 1 2 show ?thesis by simp
qed

section \<open>Properties of the connection limit\<close>

text \<open>
  Whatever the callers do, the permits handed out by \<open>request_context\<close> and the permits
  still free add up to the configured number: the semaphore does bound the callers inside
  \<open>request_context\<close>.
\<close>

lemma pool_step_permits:
  assumes "pool_step p ev = Some p'"
  shows "permits p' + in_context p' = permits p + in_context p"
  using assms by (cases ev) (auto split: if_splits)

lemma request_context_bounded:
  assumes "pool_run p evs = Some p'"
  shows "permits p' + in_context p' = permits p + in_context p"
  using assms
proof (induction evs arbitrary: p)
  case Nil
  then show ?case by simp
next
  case (Cons ev evs)
  then obtain q where q: "pool_step p ev = Some q" and r: "pool_run q evs = Some p'"
    by (auto split: option.splits)
  from Cons.IH [OF r] pool_step_permits [OF q] show ?case by simp
qed

text \<open>
  C8: the number of backend requests in flight never exceeds the configured limit. With
  the limit set to 1, two concurrent \<open>get_project\<close> calls both have their request in
  flight: the operation does not pass through \<open>request_context\<close>, so the semaphore is
  never consulted.
\<close>

theorem two_requests_in_flight_with_one_permit:
  "pool_run (HTTPClientManager_init 1) [GetProjectSend, GetProjectSend] =
     Some \<lparr>permits = 1, in_context = 0, in_flight = 2\<rparr>"
  by (simp add: HTTPClientManager_init_def)

end
